theory Spec2Isabelle
  imports Complex_Main
begin

section \<open>Dilepton selection for the ttbar analysis: the model of selection.h\<close>

text \<open>
  The header \<^verbatim>\<open>PostAnalyzer/selection.h\<close> holds two quality predicates
  (\<^verbatim>\<open>SelectEl\<close>, \<^verbatim>\<open>SelectMu\<close>) and three pair selectors
  (\<^verbatim>\<open>SelectDilepEMu\<close>, \<^verbatim>\<open>SelectDilepEE\<close>, \<^verbatim>\<open>SelectDilepMuMu\<close>).
  Floating-point numbers are modelled as real numbers: every comparison of the source is
  the comparison of the reals, so a value that is not a number is outside the model.
  Integers (\<^verbatim>\<open>Int_t\<close>) are unbounded integers; the loop counters never reach the
  bound of the machine type, since they stay below the candidate count.
\<close>

subsection \<open>Constants\<close>

definition massEl :: real where
  "massEl = 511 / 1000000"

definition massMu :: real where
  "massMu = 105658 / 1000000"

subsection \<open>The event record\<close>

text \<open>
  Modelled from the spec: the declaration of \<^verbatim>\<open>ZTree\<close> is in \<^verbatim>\<open>tree.h\<close>, which
  is not among the sources. The fields are those that \<^verbatim>\<open>selection.h\<close> reads:
  per-event candidate counts and, per species, parallel arrays indexed by the candidate
  slot. The transverse momentum is signed, the sign being the charge. An array is a list;
  the source reads slots below the count only, and a read beyond the array is undefined
  in the source.
\<close>

record ZTree =
  Nel :: int
  elPt :: "real list"
  elEta :: "real list"
  elPhi :: "real list"
  elIso03 :: "real list"
  elMissHits :: "int list"
  Nmu :: int
  muPt :: "real list"
  muEta :: "real list"
  muPhi :: "real list"
  muIso03 :: "real list"
  muHitsValid :: "int list"
  muHitsPixel :: "int list"
  muDistPV0 :: "real list"
  muDistPVz :: "real list"
  muTrackChi2NDOF :: "real list"

subsection \<open>Four-vectors\<close>

text \<open>
  \<^verbatim>\<open>TLorentzVector\<close> is a class of the ROOT library, an external collaborator of this
  code. The selectors use four of its operations, which the model takes as a parameter:
  the constructor from transverse momentum, pseudorapidity, azimuth and mass, the sum of
  two vectors, the invariant mass and the transverse momentum.
\<close>

record 'v lorentz =
  SetPtEtaPhiM :: "real \<Rightarrow> real \<Rightarrow> real \<Rightarrow> real \<Rightarrow> 'v"
  Plus :: "'v \<Rightarrow> 'v \<Rightarrow> 'v"
  M :: "'v \<Rightarrow> real"
  Pt :: "'v \<Rightarrow> real"

text \<open>
  Modelled from the spec: the class is not among the sources. The specification asks for
  the construction from transverse momentum, pseudorapidity, azimuth and rest mass, for
  the vector sum, the invariant mass and the transverse momentum. The instance below
  computes them over the reals the way ROOT defines them: a vector is its three momentum
  components and its energy; \<^verbatim>\<open>SetPtEtaPhiM\<close> goes through \<^verbatim>\<open>SetXYZM\<close>;
  \<^verbatim>\<open>M()\<close> is the signed root of the Minkowski norm; \<^verbatim>\<open>Pt()\<close> is the length of
  the transverse part. The general properties below hold for every instance of the
  operations; this one serves to run the selectors on concrete events.
\<close>

record TLorentzVector =
  fX :: real
  fY :: real
  fZ :: real
  fE :: real

definition SetXYZM :: "real \<Rightarrow> real \<Rightarrow> real \<Rightarrow> real \<Rightarrow> TLorentzVector" where
  "SetXYZM x y z m =
     (if m \<ge> 0
      then \<lparr>fX = x, fY = y, fZ = z, fE = sqrt (x * x + y * y + z * z + m * m)\<rparr>
      else \<lparr>fX = x, fY = y, fZ = z, fE = sqrt (max (x * x + y * y + z * z - m * m) 0)\<rparr>)"

definition tlv_SetPtEtaPhiM :: "real \<Rightarrow> real \<Rightarrow> real \<Rightarrow> real \<Rightarrow> TLorentzVector" where
  "tlv_SetPtEtaPhiM pt eta phi m =
     (let pt = \<bar>pt\<bar> in SetXYZM (pt * cos phi) (pt * sin phi) (pt * sinh eta) m)"

definition tlv_plus :: "TLorentzVector \<Rightarrow> TLorentzVector \<Rightarrow> TLorentzVector" where
  "tlv_plus p q = \<lparr>fX = fX p + fX q, fY = fY p + fY q, fZ = fZ p + fZ q, fE = fE p + fE q\<rparr>"

definition Mag2 :: "TLorentzVector \<Rightarrow> real" where
  "Mag2 p = fE p * fE p - (fX p * fX p + fY p * fY p + fZ p * fZ p)"

definition tlv_M :: "TLorentzVector \<Rightarrow> real" where
  "tlv_M p = (let mm = Mag2 p in if mm < 0 then - sqrt (- mm) else sqrt mm)"

definition tlv_Pt :: "TLorentzVector \<Rightarrow> real" where
  "tlv_Pt p = sqrt (fX p * fX p + fY p * fY p)"

definition ROOT :: "TLorentzVector lorentz" where
  "ROOT = \<lparr>SetPtEtaPhiM = tlv_SetPtEtaPhiM, Plus = tlv_plus, M = tlv_M, Pt = tlv_Pt\<rparr>"

subsection \<open>The quality predicates\<close>

definition SelectEl :: "ZTree \<Rightarrow> nat \<Rightarrow> bool" where
  "SelectEl preselTree el =
     (if \<bar>elPt preselTree ! el\<bar> < 20.0 then False
      else if \<bar>elEta preselTree ! el\<bar> > 2.4 then False
      else if elIso03 preselTree ! el > 0.17 then False
      else if elMissHits preselTree ! el > 0 then False
      else True)"

definition SelectMu :: "ZTree \<Rightarrow> nat \<Rightarrow> bool" where
  "SelectMu preselTree mu =
     (if \<bar>muPt preselTree ! mu\<bar> < 20.0 then False
      else if \<bar>muEta preselTree ! mu\<bar> > 2.4 then False
      else if muIso03 preselTree ! mu > 0.20 then False
      else if muHitsValid preselTree ! mu < 12 \<or> muHitsPixel preselTree ! mu < 2 then False
      else if muDistPV0 preselTree ! mu > 0.02 \<or> muDistPVz preselTree ! mu > 0.5
            \<or> muTrackChi2NDOF preselTree ! mu > 10 then False
      else True)"

subsection \<open>The output slots and the loops\<close>

text \<open>
  The three reference parameters of a selector are its state: the two output vectors and
  the running best sum, three distinct objects of the caller. A selector takes the state
  on entry and returns the state on exit.
\<close>

record 'v SelectionResult =
  vecLepM :: 'v
  vecLepP :: 'v
  maxPtDiLep :: real

text \<open>
  \<^verbatim>\<open>for(int i = lo; i < n; i++) body\<close>: the counter starts at a non-negative value,
  the bound is a signed count. A \<^verbatim>\<open>continue\<close> in the body is the body returning the
  state as it is.
\<close>

function for_loop :: "nat \<Rightarrow> int \<Rightarrow> (nat \<Rightarrow> 's \<Rightarrow> 's) \<Rightarrow> 's \<Rightarrow> 's" where
  "for_loop i n body s = (if int i < n then for_loop (Suc i) n body (body i s) else s)"
  by pat_completeness auto
termination
  by (relation "measure (\<lambda>(i, n, body, s). nat n - i)") auto

declare for_loop.simps [simp del]

definition SelectDilepEMu_mu ::
  "'v lorentz \<Rightarrow> ZTree \<Rightarrow> nat \<Rightarrow> 'v \<Rightarrow> nat \<Rightarrow> 'v SelectionResult \<Rightarrow> 'v SelectionResult" where
  "SelectDilepEMu_mu tlv preselTree el thisEl mu st =
     (if elPt preselTree ! el * muPt preselTree ! mu > 0 then st
      else if \<not> SelectMu preselTree mu then st
      else
        let thisMu = SetPtEtaPhiM tlv \<bar>muPt preselTree ! mu\<bar> (muEta preselTree ! mu)
                       (muPhi preselTree ! mu) massMu;
            vecDiLep = Plus tlv thisEl thisMu
        in if M tlv vecDiLep < 12.0 then st
           else
             let sumPt = Pt tlv thisMu + Pt tlv thisEl
             in if sumPt < maxPtDiLep st then st
                else st\<lparr>maxPtDiLep := sumPt,
                        vecLepM := (if elPt preselTree ! el < 0 then thisEl else thisMu),
                        vecLepP := (if elPt preselTree ! el < 0 then thisMu else thisEl)\<rparr>)"

definition SelectDilepEMu_el ::
  "'v lorentz \<Rightarrow> ZTree \<Rightarrow> nat \<Rightarrow> 'v SelectionResult \<Rightarrow> 'v SelectionResult" where
  "SelectDilepEMu_el tlv preselTree el st =
     (if \<not> SelectEl preselTree el then st
      else
        let thisEl = SetPtEtaPhiM tlv \<bar>elPt preselTree ! el\<bar> (elEta preselTree ! el)
                       (elPhi preselTree ! el) massEl
        in for_loop 0 (Nmu preselTree) (SelectDilepEMu_mu tlv preselTree el thisEl) st)"

definition SelectDilepEMu ::
  "'v lorentz \<Rightarrow> ZTree \<Rightarrow> 'v SelectionResult \<Rightarrow> 'v SelectionResult" where
  "SelectDilepEMu tlv preselTree st =
     for_loop 0 (Nel preselTree) (SelectDilepEMu_el tlv preselTree) st"

definition SelectDilepEE_el2 ::
  "'v lorentz \<Rightarrow> ZTree \<Rightarrow> nat \<Rightarrow> 'v \<Rightarrow> nat \<Rightarrow> 'v SelectionResult \<Rightarrow> 'v SelectionResult" where
  "SelectDilepEE_el2 tlv preselTree el1 thisEl1 el2 st =
     (if elPt preselTree ! el1 * elPt preselTree ! el2 > 0 then st
      else if \<not> SelectEl preselTree el2 then st
      else
        let thisEl2 = SetPtEtaPhiM tlv \<bar>elPt preselTree ! el2\<bar> (elEta preselTree ! el2)
                        (elPhi preselTree ! el2) massEl;
            vecDiLep = Plus tlv thisEl1 thisEl2
        in if M tlv vecDiLep < 12.0 then st
           else if M tlv vecDiLep > 76.0 \<and> M tlv vecDiLep < 106.0 then st
           else
             let sumPt = Pt tlv thisEl1 + Pt tlv thisEl2
             in if sumPt < maxPtDiLep st then st
                else st\<lparr>maxPtDiLep := sumPt,
                        vecLepM := (if elPt preselTree ! el1 < 0 then thisEl1 else thisEl2),
                        vecLepP := (if elPt preselTree ! el1 < 0 then thisEl2 else thisEl1)\<rparr>)"

definition SelectDilepEE_el1 ::
  "'v lorentz \<Rightarrow> ZTree \<Rightarrow> nat \<Rightarrow> 'v SelectionResult \<Rightarrow> 'v SelectionResult" where
  "SelectDilepEE_el1 tlv preselTree el1 st =
     (if \<not> SelectEl preselTree el1 then st
      else
        let thisEl1 = SetPtEtaPhiM tlv \<bar>elPt preselTree ! el1\<bar> (elEta preselTree ! el1)
                        (elPhi preselTree ! el1) massEl
        in for_loop (el1 + 1) (Nel preselTree) (SelectDilepEE_el2 tlv preselTree el1 thisEl1) st)"

definition SelectDilepEE ::
  "'v lorentz \<Rightarrow> ZTree \<Rightarrow> 'v SelectionResult \<Rightarrow> 'v SelectionResult" where
  "SelectDilepEE tlv preselTree st =
     for_loop 0 (Nel preselTree) (SelectDilepEE_el1 tlv preselTree) st"

definition SelectDilepMuMu_mu2 ::
  "'v lorentz \<Rightarrow> ZTree \<Rightarrow> nat \<Rightarrow> 'v \<Rightarrow> nat \<Rightarrow> 'v SelectionResult \<Rightarrow> 'v SelectionResult" where
  "SelectDilepMuMu_mu2 tlv preselTree mu1 thisMu1 mu2 st =
     (if muPt preselTree ! mu1 * muPt preselTree ! mu2 > 0 then st
      else if \<not> SelectMu preselTree mu2 then st
      else
        let thisMu2 = SetPtEtaPhiM tlv \<bar>muPt preselTree ! mu2\<bar> (muEta preselTree ! mu2)
                        (muPhi preselTree ! mu2) massMu;
            vecDiLep = Plus tlv thisMu1 thisMu2
        in if M tlv vecDiLep < 12.0 then st
           else if M tlv vecDiLep > 76.0 \<and> M tlv vecDiLep < 106.0 then st
           else
             let sumPt = Pt tlv thisMu1 + Pt tlv thisMu2
             in if sumPt < maxPtDiLep st then st
                else st\<lparr>maxPtDiLep := sumPt,
                        vecLepM := (if muPt preselTree ! mu1 < 0 then thisMu1 else thisMu2),
                        vecLepP := (if muPt preselTree ! mu1 < 0 then thisMu2 else thisMu1)\<rparr>)"

definition SelectDilepMuMu_mu1 ::
  "'v lorentz \<Rightarrow> ZTree \<Rightarrow> nat \<Rightarrow> 'v SelectionResult \<Rightarrow> 'v SelectionResult" where
  "SelectDilepMuMu_mu1 tlv preselTree mu1 st =
     (if \<not> SelectMu preselTree mu1 then st
      else
        let thisMu1 = SetPtEtaPhiM tlv \<bar>muPt preselTree ! mu1\<bar> (muEta preselTree ! mu1)
                        (muPhi preselTree ! mu1) massMu
        in for_loop (mu1 + 1) (Nmu preselTree) (SelectDilepMuMu_mu2 tlv preselTree mu1 thisMu1) st)"

definition SelectDilepMuMu ::
  "'v lorentz \<Rightarrow> ZTree \<Rightarrow> 'v SelectionResult \<Rightarrow> 'v SelectionResult" where
  "SelectDilepMuMu tlv preselTree st =
     for_loop 0 (Nmu preselTree) (SelectDilepMuMu_mu1 tlv preselTree) st"

subsection \<open>The vocabulary of the properties\<close>

text \<open>
  The four-vector that the source builds for a candidate: \<^verbatim>\<open>thisEl\<close>, \<^verbatim>\<open>thisEl1\<close>,
  \<^verbatim>\<open>thisEl2\<close> for an electron slot and \<^verbatim>\<open>thisMu\<close>, \<^verbatim>\<open>thisMu1\<close>, \<^verbatim>\<open>thisMu2\<close>
  for a muon slot.
\<close>

definition elVec :: "'v lorentz \<Rightarrow> ZTree \<Rightarrow> nat \<Rightarrow> 'v" where
  "elVec tlv t el = SetPtEtaPhiM tlv \<bar>elPt t ! el\<bar> (elEta t ! el) (elPhi t ! el) massEl"

definition muVec :: "'v lorentz \<Rightarrow> ZTree \<Rightarrow> nat \<Rightarrow> 'v" where
  "muVec tlv t mu = SetPtEtaPhiM tlv \<bar>muPt t ! mu\<bar> (muEta t ! mu) (muPhi t ! mu) massMu"

text \<open>
  The pairs of slots in the order in which the nested loops reach them: every electron
  with every muon for the mixed-flavour selector, every slot with the later slots of the
  same species for the same-flavour selectors.
\<close>

definition pairs_emu :: "ZTree \<Rightarrow> (nat \<times> nat) list" where
  "pairs_emu t = concat (map (\<lambda>el. map (Pair el) [0..<nat (Nmu t)]) [0..<nat (Nel t)])"

definition pairs_ee :: "ZTree \<Rightarrow> (nat \<times> nat) list" where
  "pairs_ee t = concat (map (\<lambda>el1. map (Pair el1) [Suc el1..<nat (Nel t)]) [0..<nat (Nel t)])"

definition pairs_mumu :: "ZTree \<Rightarrow> (nat \<times> nat) list" where
  "pairs_mumu t = concat (map (\<lambda>mu1. map (Pair mu1) [Suc mu1..<nat (Nmu t)]) [0..<nat (Nmu t)])"

text \<open>The invariant mass of the sum of the two four-vectors of a pair (\<^verbatim>\<open>vecDiLep.M()\<close>).\<close>

definition mass_emu :: "'v lorentz \<Rightarrow> ZTree \<Rightarrow> nat \<times> nat \<Rightarrow> real" where
  "mass_emu tlv t p = M tlv (Plus tlv (elVec tlv t (fst p)) (muVec tlv t (snd p)))"

definition mass_ee :: "'v lorentz \<Rightarrow> ZTree \<Rightarrow> nat \<times> nat \<Rightarrow> real" where
  "mass_ee tlv t p = M tlv (Plus tlv (elVec tlv t (fst p)) (elVec tlv t (snd p)))"

definition mass_mumu :: "'v lorentz \<Rightarrow> ZTree \<Rightarrow> nat \<times> nat \<Rightarrow> real" where
  "mass_mumu tlv t p = M tlv (Plus tlv (muVec tlv t (fst p)) (muVec tlv t (snd p)))"

text \<open>
  A valid pair, in the words of the specification: both candidates pass their quality
  predicate, the product of the signed transverse momenta is not positive, the invariant
  mass is at least 12 and, for a same-flavour pair, not strictly between 76 and 106.
\<close>

definition valid_emu :: "'v lorentz \<Rightarrow> ZTree \<Rightarrow> nat \<times> nat \<Rightarrow> bool" where
  "valid_emu tlv t p =
     (SelectEl t (fst p) \<and> SelectMu t (snd p) \<and> elPt t ! fst p * muPt t ! snd p \<le> 0
      \<and> 12 \<le> mass_emu tlv t p)"

definition valid_ee :: "'v lorentz \<Rightarrow> ZTree \<Rightarrow> nat \<times> nat \<Rightarrow> bool" where
  "valid_ee tlv t p =
     (SelectEl t (fst p) \<and> SelectEl t (snd p) \<and> elPt t ! fst p * elPt t ! snd p \<le> 0
      \<and> 12 \<le> mass_ee tlv t p \<and> \<not> (76 < mass_ee tlv t p \<and> mass_ee tlv t p < 106))"

definition valid_mumu :: "'v lorentz \<Rightarrow> ZTree \<Rightarrow> nat \<times> nat \<Rightarrow> bool" where
  "valid_mumu tlv t p =
     (SelectMu t (fst p) \<and> SelectMu t (snd p) \<and> muPt t ! fst p * muPt t ! snd p \<le> 0
      \<and> 12 \<le> mass_mumu tlv t p \<and> \<not> (76 < mass_mumu tlv t p \<and> mass_mumu tlv t p < 106))"

text \<open>The sum of the two transverse momenta of a pair (\<^verbatim>\<open>sumPt\<close>).\<close>

definition sumPt_emu :: "'v lorentz \<Rightarrow> ZTree \<Rightarrow> nat \<times> nat \<Rightarrow> real" where
  "sumPt_emu tlv t p = Pt tlv (muVec tlv t (snd p)) + Pt tlv (elVec tlv t (fst p))"

definition sumPt_ee :: "'v lorentz \<Rightarrow> ZTree \<Rightarrow> nat \<times> nat \<Rightarrow> real" where
  "sumPt_ee tlv t p = Pt tlv (elVec tlv t (fst p)) + Pt tlv (elVec tlv t (snd p))"

definition sumPt_mumu :: "'v lorentz \<Rightarrow> ZTree \<Rightarrow> nat \<times> nat \<Rightarrow> real" where
  "sumPt_mumu tlv t p = Pt tlv (muVec tlv t (fst p)) + Pt tlv (muVec tlv t (snd p))"

text \<open>
  What the source writes into the three output slots when a pair becomes the best one:
  the sum, and the two vectors ordered by the sign of the first candidate's stored
  transverse momentum.
\<close>

definition out_emu :: "'v lorentz \<Rightarrow> ZTree \<Rightarrow> nat \<times> nat \<Rightarrow> 'v SelectionResult" where
  "out_emu tlv t p =
     \<lparr>vecLepM = (if elPt t ! fst p < 0 then elVec tlv t (fst p) else muVec tlv t (snd p)),
      vecLepP = (if elPt t ! fst p < 0 then muVec tlv t (snd p) else elVec tlv t (fst p)),
      maxPtDiLep = sumPt_emu tlv t p\<rparr>"

definition out_ee :: "'v lorentz \<Rightarrow> ZTree \<Rightarrow> nat \<times> nat \<Rightarrow> 'v SelectionResult" where
  "out_ee tlv t p =
     \<lparr>vecLepM = (if elPt t ! fst p < 0 then elVec tlv t (fst p) else elVec tlv t (snd p)),
      vecLepP = (if elPt t ! fst p < 0 then elVec tlv t (snd p) else elVec tlv t (fst p)),
      maxPtDiLep = sumPt_ee tlv t p\<rparr>"

definition out_mumu :: "'v lorentz \<Rightarrow> ZTree \<Rightarrow> nat \<times> nat \<Rightarrow> 'v SelectionResult" where
  "out_mumu tlv t p =
     \<lparr>vecLepM = (if muPt t ! fst p < 0 then muVec tlv t (fst p) else muVec tlv t (snd p)),
      vecLepP = (if muPt t ! fst p < 0 then muVec tlv t (snd p) else muVec tlv t (fst p)),
      maxPtDiLep = sumPt_mumu tlv t p\<rparr>"

text \<open>
  A scan over an enumeration of pairs that overwrites the state with the output of every
  valid pair whose sum is not below the running best. Each selector is shown below to be
  such a scan over its own enumeration.
\<close>

definition scan_step ::
  "('p \<Rightarrow> bool) \<Rightarrow> ('p \<Rightarrow> real) \<Rightarrow> ('p \<Rightarrow> 'v SelectionResult) \<Rightarrow> 'p \<Rightarrow> 'v SelectionResult
     \<Rightarrow> 'v SelectionResult" where
  "scan_step ok sm out p s = (if ok p \<and> \<not> sm p < maxPtDiLep s then out p else s)"

definition scan ::
  "('p \<Rightarrow> bool) \<Rightarrow> ('p \<Rightarrow> real) \<Rightarrow> ('p \<Rightarrow> 'v SelectionResult) \<Rightarrow> 'p list \<Rightarrow> 'v SelectionResult
     \<Rightarrow> 'v SelectionResult" where
  "scan ok sm out ps s = fold (scan_step ok sm out) ps s"

subsection \<open>Events used to run the code\<close>

text \<open>
  The state of a caller that has selected nothing yet: two null vectors and a best sum
  below every sum of absolute values.
\<close>

definition st_init :: "TLorentzVector SelectionResult" where
  "st_init =
     \<lparr>vecLepM = \<lparr>fX = 0, fY = 0, fZ = 0, fE = 0\<rparr>,
      vecLepP = \<lparr>fX = 0, fY = 0, fZ = 0, fE = 0\<rparr>,
      maxPtDiLep = - 1\<rparr>"

text \<open>A muon and an electron with every attribute exactly at its threshold.\<close>

definition mu_at_thresholds :: ZTree where
  "mu_at_thresholds =
     \<lparr>Nel = 0, elPt = [], elEta = [], elPhi = [], elIso03 = [], elMissHits = [],
      Nmu = 1, muPt = [- 20.0], muEta = [- 2.4], muPhi = [0], muIso03 = [0.20],
      muHitsValid = [12], muHitsPixel = [2], muDistPV0 = [0.02], muDistPVz = [0.5],
      muTrackChi2NDOF = [10]\<rparr>"

definition el_at_thresholds :: ZTree where
  "el_at_thresholds =
     \<lparr>Nel = 1, elPt = [20.0], elEta = [2.4], elPhi = [0], elIso03 = [0.17], elMissHits = [0],
      Nmu = 0, muPt = [], muEta = [], muPhi = [], muIso03 = [],
      muHitsValid = [], muHitsPixel = [], muDistPV0 = [], muDistPVz = [],
      muTrackChi2NDOF = []\<rparr>"

text \<open>
  Events with two electrons and two muons, all of pseudorapidity 0 and azimuth 0 or
  \<open>\<pi>\<close>, so that the pairs of opposite charge are back to back.
  In \<open>event_all\<close> each selector has a valid pair (sums 55 and 75, 70, 60).
  In \<open>event_tie\<close> the two valid electron-muon pairs have the same sum 50.
  In \<open>event_zwindow\<close> the same-flavour pairs have a mass near 90 and 85, inside the window
  from 76 to 106, and so has the first electron-muon pair.
  In \<open>event_misshit\<close> the only electron has one missing hit.
  In \<open>event_collinear\<close> all four candidates fly in the same direction, so every pair has
  a mass below 12. In \<open>event_same_sign\<close> the two electrons have the same charge, and so
  have the two muons.
\<close>

definition event_all :: ZTree where
  "event_all =
     \<lparr>Nel = 2, elPt = [- 30, 40], elEta = [0, 0], elPhi = [0, pi], elIso03 = [0, 0],
      elMissHits = [0, 0],
      Nmu = 2, muPt = [25, - 35], muEta = [0, 0], muPhi = [pi, 0], muIso03 = [0, 0],
      muHitsValid = [20, 20], muHitsPixel = [3, 3], muDistPV0 = [0, 0], muDistPVz = [0, 0],
      muTrackChi2NDOF = [1, 1]\<rparr>"

definition event_tie :: ZTree where
  "event_tie =
     \<lparr>Nel = 2, elPt = [- 30, 25], elEta = [0, 0], elPhi = [0, pi], elIso03 = [0, 0],
      elMissHits = [0, 0],
      Nmu = 2, muPt = [20, - 25], muEta = [0, 0], muPhi = [pi, 0], muIso03 = [0, 0],
      muHitsValid = [20, 20], muHitsPixel = [3, 3], muDistPV0 = [0, 0], muDistPVz = [0, 0],
      muTrackChi2NDOF = [1, 1]\<rparr>"

definition event_zwindow :: ZTree where
  "event_zwindow =
     \<lparr>Nel = 2, elPt = [- 45, 45], elEta = [0, 0], elPhi = [0, pi], elIso03 = [0, 0],
      elMissHits = [0, 0],
      Nmu = 2, muPt = [45, - 40], muEta = [0, 0], muPhi = [pi, 0], muIso03 = [0, 0],
      muHitsValid = [20, 20], muHitsPixel = [3, 3], muDistPV0 = [0, 0], muDistPVz = [0, 0],
      muTrackChi2NDOF = [1, 1]\<rparr>"

definition event_misshit :: ZTree where
  "event_misshit =
     \<lparr>Nel = 1, elPt = [- 30], elEta = [0], elPhi = [0], elIso03 = [0], elMissHits = [1],
      Nmu = 1, muPt = [25], muEta = [0], muPhi = [pi], muIso03 = [0],
      muHitsValid = [20], muHitsPixel = [3], muDistPV0 = [0], muDistPVz = [0],
      muTrackChi2NDOF = [1]\<rparr>"

definition event_collinear :: ZTree where
  "event_collinear =
     \<lparr>Nel = 2, elPt = [- 30, 30], elEta = [0, 0], elPhi = [0, 0], elIso03 = [0, 0],
      elMissHits = [0, 0],
      Nmu = 2, muPt = [25, - 25], muEta = [0, 0], muPhi = [0, 0], muIso03 = [0, 0],
      muHitsValid = [20, 20], muHitsPixel = [3, 3], muDistPV0 = [0, 0], muDistPVz = [0, 0],
      muTrackChi2NDOF = [1, 1]\<rparr>"

definition event_same_sign :: ZTree where
  "event_same_sign =
     \<lparr>Nel = 2, elPt = [- 30, - 40], elEta = [0, 0], elPhi = [0, pi], elIso03 = [0, 0],
      elMissHits = [0, 0],
      Nmu = 2, muPt = [25, 35], muEta = [0, 0], muPhi = [pi, 0], muIso03 = [0, 0],
      muHitsValid = [20, 20], muHitsPixel = [3, 3], muDistPV0 = [0, 0], muDistPVz = [0, 0],
      muTrackChi2NDOF = [1, 1]\<rparr>"

section \<open>Properties\<close>

subsection \<open>The loops as folds\<close>

lemma for_loop_fold: "for_loop i n body s = fold body [i..<nat n] s"
proof (induction i n body s rule: for_loop.induct)
  case (1 i n body s)
  show ?case
  proof (cases "int i < n")
    case True
    then have "i < nat n" by linarith
    then have "[i..<nat n] = i # [Suc i..<nat n]" by (simp add: upt_conv_Cons)
    with True 1 show ?thesis by (simp add: for_loop.simps [of i])
  next
    case False
    then show ?thesis by (simp add: for_loop.simps [of i])
  qed
qed

subsection \<open>Scans that keep the best sum\<close>

lemma scan_Nil [simp]: "scan ok sm out [] s = s"
  by (simp add: scan_def)

lemma scan_Cons [simp]: "scan ok sm out (p # ps) s = scan ok sm out ps (scan_step ok sm out p s)"
  by (simp add: scan_def)

lemma scan_append [simp]: "scan ok sm out (ps @ qs) s = scan ok sm out qs (scan ok sm out ps s)"
  by (simp add: scan_def)

lemma scan_concat: "scan ok sm out (concat pss) s = fold (scan ok sm out) pss s"
  by (induction pss arbitrary: s) simp_all

lemma scan_map:
  "scan ok sm out (map f xs) s = fold (\<lambda>x. scan_step ok sm out (f x)) xs s"
  by (simp add: scan_def fold_map comp_def)

lemma scan_none: "\<forall>p\<in>set ps. \<not> ok p \<Longrightarrow> scan ok sm out ps s = s"
  by (induction ps arbitrary: s) (simp_all add: scan_step_def)

lemma scan_below: "\<forall>p\<in>set ps. ok p \<longrightarrow> sm p < maxPtDiLep s \<Longrightarrow> scan ok sm out ps s = s"
  by (induction ps arbitrary: s) (auto simp add: scan_step_def)

lemma scan_cases:
  "scan ok sm out ps s = s \<or> (\<exists>p\<in>set ps. ok p \<and> scan ok sm out ps s = out p)"
proof (induction ps arbitrary: s)
  case Nil
  show ?case by simp
next
  case (Cons q ps)
  show ?case
  proof (cases "ok q \<and> \<not> sm q < maxPtDiLep s")
    case True
    then have st: "scan_step ok sm out q s = out q" by (simp add: scan_step_def)
    from Cons [of "out q"] True show ?thesis unfolding scan_Cons st by auto
  next
    case False
    then have st: "scan_step ok sm out q s = s" by (auto simp add: scan_step_def)
    from Cons [of s] show ?thesis unfolding scan_Cons st by auto
  qed
qed

lemma scan_max:
  assumes out: "\<And>p. maxPtDiLep (out p) = sm p"
  shows "maxPtDiLep (scan ok sm out ps s) = Max (set (maxPtDiLep s # map sm (filter ok ps)))"
proof (induction ps arbitrary: s)
  case Nil
  show ?case by simp
next
  case (Cons q ps)
  show ?case
  proof (cases "ok q")
    case False
    then show ?thesis using Cons [of s] by (simp add: scan_step_def)
  next
    case okq: True
    let ?A = "set (map sm (filter ok ps))"
    have fin: "finite ?A" by simp
    show ?thesis
    proof (cases "sm q < maxPtDiLep s")
      case True
      have "Max (insert (maxPtDiLep s) (insert (sm q) ?A)) = Max (insert (maxPtDiLep s) ?A)"
      proof (cases "?A = {}")
        case True
        with \<open>sm q < maxPtDiLep s\<close> show ?thesis by (simp add: max_def)
      next
        case False
        with fin \<open>sm q < maxPtDiLep s\<close> show ?thesis
          by (simp add: max_def)
      qed
      with okq True Cons [of s] show ?thesis by (simp add: scan_step_def insert_commute)
    next
      case False
      have "Max (insert (maxPtDiLep s) (insert (sm q) ?A)) = Max (insert (sm q) ?A)"
      proof (cases "?A = {}")
        case True
        with False show ?thesis by (simp add: max_def)
      next
        case nonempty: False
        with fin False show ?thesis
          by (simp add: max_def)
      qed
      with okq False Cons [of "out q"] show ?thesis by (simp add: scan_step_def out)
    qed
  qed
qed

lemma scan_upper:
  assumes out: "\<And>p. maxPtDiLep (out p) = sm p" and p: "p \<in> set ps" "ok p"
  shows "sm p \<le> maxPtDiLep (scan ok sm out ps s)"
  using p by (simp add: scan_max [of out sm, OF out])

lemma scan_bounded:
  assumes out: "\<And>p. maxPtDiLep (out p) = sm p"
    and s: "maxPtDiLep s \<le> b" and ps: "\<forall>p\<in>set ps. ok p \<longrightarrow> sm p \<le> b"
  shows "maxPtDiLep (scan ok sm out ps s) \<le> b"
  using s ps by (simp add: scan_max [of out sm, OF out])

lemma scan_last_max:
  assumes out: "\<And>p. maxPtDiLep (out p) = sm p"
    and ps: "ps = xs @ p # ys" and p: "ok p" and s: "maxPtDiLep s \<le> sm p"
    and xs: "\<forall>q\<in>set xs. ok q \<longrightarrow> sm q \<le> sm p"
    and ys: "\<forall>q\<in>set ys. ok q \<longrightarrow> sm q < sm p"
  shows "scan ok sm out ps s = out p"
proof -
  have "maxPtDiLep (scan ok sm out xs s) \<le> sm p"
    using s xs by (rule scan_bounded [of out sm, OF out])
  then have "scan_step ok sm out p (scan ok sm out xs s) = out p"
    using p by (simp add: scan_step_def)
  moreover have "scan ok sm out ys (out p) = out p"
    using ys by (intro scan_below) (simp add: out)
  ultimately show ?thesis by (simp add: ps)
qed

lemma scan_selects:
  assumes out: "\<And>p. maxPtDiLep (out p) = sm p"
    and below: "\<forall>p\<in>set ps. ok p \<longrightarrow> maxPtDiLep s < sm p" and ex: "\<exists>p\<in>set ps. ok p"
  shows "\<exists>p\<in>set ps. ok p \<and> scan ok sm out ps s = out p"
proof -
  from ex obtain q where q: "q \<in> set ps" "ok q" by blast
  have "sm q \<le> maxPtDiLep (scan ok sm out ps s)" using q by (rule scan_upper [of out sm, OF out])
  moreover have "maxPtDiLep s < sm q" using below q by blast
  ultimately have "scan ok sm out ps s \<noteq> s" by auto
  with scan_cases [of ok sm out ps s] show ?thesis by blast
qed

lemma scan_maximal:
  assumes out: "\<And>p. maxPtDiLep (out p) = sm p"
  shows "(\<forall>p\<in>set ps. ok p \<longrightarrow> maxPtDiLep s < sm p) \<longrightarrow>
           (\<forall>p\<in>set ps. ok p \<longrightarrow> sm p \<le> maxPtDiLep (scan ok sm out ps s))
           \<and> ((\<exists>p\<in>set ps. ok p) \<longrightarrow> (\<exists>p\<in>set ps. ok p \<and> scan ok sm out ps s = out p))"
  using scan_upper [of out sm, OF out] scan_selects [of out sm, OF out] by blast

lemma scan_selected:
  "scan ok sm out ps s \<noteq> s \<Longrightarrow> \<exists>p\<in>set ps. ok p \<and> scan ok sm out ps s = out p"
  using scan_cases [of ok sm out ps s] by blast

lemma Max_chain:
  fixes a :: real
  assumes A: "finite A" and B: "finite B"
  shows "Max (insert (Max (insert a A)) B) = Max (insert a (A \<union> B))"
proof (rule antisym)
  let ?m = "Max (insert a A)"
  have m_in: "?m \<in> insert a A" using A by (intro Max_in) simp_all
  have m_ge: "\<And>x. x \<in> insert a A \<Longrightarrow> x \<le> ?m" using A by (intro Max_ge) simp_all
  show "Max (insert ?m B) \<le> Max (insert a (A \<union> B))"
  proof (rule Max.boundedI)
    fix x assume "x \<in> insert ?m B"
    with m_in have "x \<in> insert a (A \<union> B)" by auto
    then show "x \<le> Max (insert a (A \<union> B))" using A B by (intro Max_ge) simp_all
  qed (use B in simp_all)
  show "Max (insert a (A \<union> B)) \<le> Max (insert ?m B)"
  proof (rule Max.boundedI)
    fix x assume x: "x \<in> insert a (A \<union> B)"
    have top: "?m \<le> Max (insert ?m B)" using B by (intro Max_ge) simp_all
    show "x \<le> Max (insert ?m B)"
    proof (cases "x \<in> B")
      case True
      then show ?thesis using B by (intro Max_ge) simp_all
    next
      case False
      with x have "x \<in> insert a A" by auto
      from m_ge [OF this] top show ?thesis by simp
    qed
  qed (use A B in simp_all)
qed

subsection \<open>Each selector is a scan over its enumeration\<close>

lemma emu_mu_step:
  "SelectEl t el \<Longrightarrow>
   SelectDilepEMu_mu tlv t el (elVec tlv t el) mu s
     = scan_step (valid_emu tlv t) (sumPt_emu tlv t) (out_emu tlv t) (el, mu) s"
  by (simp add: SelectDilepEMu_mu_def scan_step_def valid_emu_def sumPt_emu_def out_emu_def
      mass_emu_def muVec_def Let_def not_less)

lemma emu_el_row:
  "SelectDilepEMu_el tlv t el s
     = scan (valid_emu tlv t) (sumPt_emu tlv t) (out_emu tlv t)
         (map (Pair el) [0..<nat (Nmu t)]) s"
proof (cases "SelectEl t el")
  case False
  then have "\<forall>p\<in>set (map (Pair el) [0..<nat (Nmu t)]). \<not> valid_emu tlv t p"
    by (simp add: valid_emu_def)
  then show ?thesis using False by (simp add: scan_none SelectDilepEMu_el_def)
next
  case True
  then have "SelectDilepEMu_mu tlv t el (elVec tlv t el)
               = (\<lambda>mu. scan_step (valid_emu tlv t) (sumPt_emu tlv t) (out_emu tlv t) (el, mu))"
    by (intro ext) (rule emu_mu_step)
  with True show ?thesis
    by (simp add: SelectDilepEMu_el_def for_loop_fold scan_map elVec_def [symmetric])
qed

lemma SelectDilepEMu_scan:
  "SelectDilepEMu tlv t s
     = scan (valid_emu tlv t) (sumPt_emu tlv t) (out_emu tlv t) (pairs_emu t) s"
proof -
  have "SelectDilepEMu_el tlv t
          = (\<lambda>el. scan (valid_emu tlv t) (sumPt_emu tlv t) (out_emu tlv t)
               (map (Pair el) [0..<nat (Nmu t)]))"
    by (rule ext)+ (rule emu_el_row)
  then show ?thesis
    by (simp add: SelectDilepEMu_def for_loop_fold pairs_emu_def scan_concat fold_map comp_def)
qed

lemma ee_el2_step:
  "SelectEl t el1 \<Longrightarrow>
   SelectDilepEE_el2 tlv t el1 (elVec tlv t el1) el2 s
     = scan_step (valid_ee tlv t) (sumPt_ee tlv t) (out_ee tlv t) (el1, el2) s"
  by (simp add: SelectDilepEE_el2_def scan_step_def valid_ee_def sumPt_ee_def out_ee_def
      mass_ee_def elVec_def Let_def not_less)

lemma ee_el1_row:
  "SelectDilepEE_el1 tlv t el1 s
     = scan (valid_ee tlv t) (sumPt_ee tlv t) (out_ee tlv t)
         (map (Pair el1) [Suc el1..<nat (Nel t)]) s"
proof (cases "SelectEl t el1")
  case False
  then have "\<forall>p\<in>set (map (Pair el1) [Suc el1..<nat (Nel t)]). \<not> valid_ee tlv t p"
    by (simp add: valid_ee_def)
  then show ?thesis using False by (simp add: scan_none SelectDilepEE_el1_def)
next
  case True
  then have "SelectDilepEE_el2 tlv t el1 (elVec tlv t el1)
               = (\<lambda>el2. scan_step (valid_ee tlv t) (sumPt_ee tlv t) (out_ee tlv t) (el1, el2))"
    by (intro ext) (rule ee_el2_step)
  with True show ?thesis
    by (simp add: SelectDilepEE_el1_def for_loop_fold scan_map elVec_def [symmetric])
qed

lemma SelectDilepEE_scan:
  "SelectDilepEE tlv t s
     = scan (valid_ee tlv t) (sumPt_ee tlv t) (out_ee tlv t) (pairs_ee t) s"
proof -
  have "SelectDilepEE_el1 tlv t
          = (\<lambda>el1. scan (valid_ee tlv t) (sumPt_ee tlv t) (out_ee tlv t)
               (map (Pair el1) [Suc el1..<nat (Nel t)]))"
    by (rule ext)+ (rule ee_el1_row)
  then show ?thesis
    by (simp add: SelectDilepEE_def for_loop_fold pairs_ee_def scan_concat fold_map comp_def)
qed

lemma mumu_mu2_step:
  "SelectMu t mu1 \<Longrightarrow>
   SelectDilepMuMu_mu2 tlv t mu1 (muVec tlv t mu1) mu2 s
     = scan_step (valid_mumu tlv t) (sumPt_mumu tlv t) (out_mumu tlv t) (mu1, mu2) s"
  by (simp add: SelectDilepMuMu_mu2_def scan_step_def valid_mumu_def sumPt_mumu_def out_mumu_def
      mass_mumu_def muVec_def Let_def not_less)

lemma mumu_mu1_row:
  "SelectDilepMuMu_mu1 tlv t mu1 s
     = scan (valid_mumu tlv t) (sumPt_mumu tlv t) (out_mumu tlv t)
         (map (Pair mu1) [Suc mu1..<nat (Nmu t)]) s"
proof (cases "SelectMu t mu1")
  case False
  then have "\<forall>p\<in>set (map (Pair mu1) [Suc mu1..<nat (Nmu t)]). \<not> valid_mumu tlv t p"
    by (simp add: valid_mumu_def)
  then show ?thesis using False by (simp add: scan_none SelectDilepMuMu_mu1_def)
next
  case True
  then have "SelectDilepMuMu_mu2 tlv t mu1 (muVec tlv t mu1)
               = (\<lambda>mu2. scan_step (valid_mumu tlv t) (sumPt_mumu tlv t) (out_mumu tlv t) (mu1, mu2))"
    by (intro ext) (rule mumu_mu2_step)
  with True show ?thesis
    by (simp add: SelectDilepMuMu_mu1_def for_loop_fold scan_map muVec_def [symmetric])
qed

lemma SelectDilepMuMu_scan:
  "SelectDilepMuMu tlv t s
     = scan (valid_mumu tlv t) (sumPt_mumu tlv t) (out_mumu tlv t) (pairs_mumu t) s"
proof -
  have "SelectDilepMuMu_mu1 tlv t
          = (\<lambda>mu1. scan (valid_mumu tlv t) (sumPt_mumu tlv t) (out_mumu tlv t)
               (map (Pair mu1) [Suc mu1..<nat (Nmu t)]))"
    by (rule ext)+ (rule mumu_mu1_row)
  then show ?thesis
    by (simp add: SelectDilepMuMu_def for_loop_fold pairs_mumu_def scan_concat fold_map comp_def)
qed

lemmas selectors_scan = SelectDilepEMu_scan SelectDilepEE_scan SelectDilepMuMu_scan

subsection \<open>What a scan, and so a selector, returns\<close>

lemma out_max [simp]:
  "maxPtDiLep (out_emu tlv t p) = sumPt_emu tlv t p"
  "maxPtDiLep (out_ee tlv t p) = sumPt_ee tlv t p"
  "maxPtDiLep (out_mumu tlv t p) = sumPt_mumu tlv t p"
  by (simp_all add: out_emu_def out_ee_def out_mumu_def)

lemma selected_emu:
  "SelectDilepEMu tlv t st \<noteq> st \<Longrightarrow>
     \<exists>p\<in>set (pairs_emu t). valid_emu tlv t p \<and> SelectDilepEMu tlv t st = out_emu tlv t p"
  unfolding selectors_scan by (rule scan_selected)

lemma selected_ee:
  "SelectDilepEE tlv t st \<noteq> st \<Longrightarrow>
     \<exists>p\<in>set (pairs_ee t). valid_ee tlv t p \<and> SelectDilepEE tlv t st = out_ee tlv t p"
  unfolding selectors_scan by (rule scan_selected)

lemma selected_mumu:
  "SelectDilepMuMu tlv t st \<noteq> st \<Longrightarrow>
     \<exists>p\<in>set (pairs_mumu t). valid_mumu tlv t p \<and> SelectDilepMuMu tlv t st = out_mumu tlv t p"
  unfolding selectors_scan by (rule scan_selected)

lemma quality_pt:
  "SelectEl t el \<Longrightarrow> elPt t ! el \<le> - 20 \<or> 20 \<le> elPt t ! el"
  "SelectMu t mu \<Longrightarrow> muPt t ! mu \<le> - 20 \<or> 20 \<le> muPt t ! mu"
  by (auto simp add: SelectEl_def SelectMu_def split: if_splits)

lemma opposite_signs:
  fixes a b :: real
  assumes "a \<le> - 20 \<or> 20 \<le> a" "b \<le> - 20 \<or> 20 \<le> b" "a * b \<le> 0"
  shows "(a < 0 \<and> 0 < b) \<or> (\<not> a < 0 \<and> b < 0 \<and> 0 < a)"
  using assms by (auto simp add: mult_le_0_iff)

lemma valid_charges:
  "valid_emu tlv t p \<Longrightarrow>
     (elPt t ! fst p < 0 \<and> 0 < muPt t ! snd p)
     \<or> (\<not> elPt t ! fst p < 0 \<and> muPt t ! snd p < 0 \<and> 0 < elPt t ! fst p)"
  "valid_ee tlv t p \<Longrightarrow>
     (elPt t ! fst p < 0 \<and> 0 < elPt t ! snd p)
     \<or> (\<not> elPt t ! fst p < 0 \<and> elPt t ! snd p < 0 \<and> 0 < elPt t ! fst p)"
  "valid_mumu tlv t p \<Longrightarrow>
     (muPt t ! fst p < 0 \<and> 0 < muPt t ! snd p)
     \<or> (\<not> muPt t ! fst p < 0 \<and> muPt t ! snd p < 0 \<and> 0 < muPt t ! fst p)"
proof -
  show "valid_emu tlv t p \<Longrightarrow>
     (elPt t ! fst p < 0 \<and> 0 < muPt t ! snd p)
     \<or> (\<not> elPt t ! fst p < 0 \<and> muPt t ! snd p < 0 \<and> 0 < elPt t ! fst p)"
    unfolding valid_emu_def
    using opposite_signs [OF quality_pt(1) [of t "fst p"] quality_pt(2) [of t "snd p"]] by blast
  show "valid_ee tlv t p \<Longrightarrow>
     (elPt t ! fst p < 0 \<and> 0 < elPt t ! snd p)
     \<or> (\<not> elPt t ! fst p < 0 \<and> elPt t ! snd p < 0 \<and> 0 < elPt t ! fst p)"
    unfolding valid_ee_def
    using opposite_signs [OF quality_pt(1) [of t "fst p"] quality_pt(1) [of t "snd p"]] by blast
  show "valid_mumu tlv t p \<Longrightarrow>
     (muPt t ! fst p < 0 \<and> 0 < muPt t ! snd p)
     \<or> (\<not> muPt t ! fst p < 0 \<and> muPt t ! snd p < 0 \<and> 0 < muPt t ! fst p)"
    unfolding valid_mumu_def
    using opposite_signs [OF quality_pt(2) [of t "fst p"] quality_pt(2) [of t "snd p"]] by blast
qed

lemma inner_skip_mass:
  "mass_emu tlv t (el, mu) < 12 \<Longrightarrow> SelectDilepEMu_mu tlv t el (elVec tlv t el) mu st = st"
  "mass_ee tlv t (el1, el2) < 12 \<Longrightarrow> SelectDilepEE_el2 tlv t el1 (elVec tlv t el1) el2 st = st"
  "mass_mumu tlv t (mu1, mu2) < 12 \<Longrightarrow>
     SelectDilepMuMu_mu2 tlv t mu1 (muVec tlv t mu1) mu2 st = st"
  by (simp_all add: SelectDilepEMu_mu_def SelectDilepEE_el2_def SelectDilepMuMu_mu2_def
      mass_emu_def mass_ee_def mass_mumu_def elVec_def muVec_def Let_def)

lemma inner_skip_window:
  "76 < mass_ee tlv t (el1, el2) \<and> mass_ee tlv t (el1, el2) < 106 \<Longrightarrow>
     SelectDilepEE_el2 tlv t el1 (elVec tlv t el1) el2 st = st"
  "76 < mass_mumu tlv t (mu1, mu2) \<and> mass_mumu tlv t (mu1, mu2) < 106 \<Longrightarrow>
     SelectDilepMuMu_mu2 tlv t mu1 (muVec tlv t mu1) mu2 st = st"
  by (simp_all add: SelectDilepEE_el2_def SelectDilepMuMu_mu2_def
      mass_ee_def mass_mumu_def elVec_def muVec_def Let_def)

lemma inner_skip_charge:
  "elPt t ! el * muPt t ! mu > 0 \<Longrightarrow> SelectDilepEMu_mu tlv t el thisEl mu st = st"
  "elPt t ! el1 * elPt t ! el2 > 0 \<Longrightarrow> SelectDilepEE_el2 tlv t el1 thisEl1 el2 st = st"
  "muPt t ! mu1 * muPt t ! mu2 > 0 \<Longrightarrow> SelectDilepMuMu_mu2 tlv t mu1 thisMu1 mu2 st = st"
  by (simp_all add: SelectDilepEMu_mu_def SelectDilepEE_el2_def SelectDilepMuMu_mu2_def)

lemma inner_valid:
  "valid_emu tlv t (i, j) \<Longrightarrow>
     SelectDilepEMu_mu tlv t i (elVec tlv t i) j st
       = (if sumPt_emu tlv t (i, j) < maxPtDiLep st then st else out_emu tlv t (i, j))"
  "valid_ee tlv t (i, j) \<Longrightarrow>
     SelectDilepEE_el2 tlv t i (elVec tlv t i) j st
       = (if sumPt_ee tlv t (i, j) < maxPtDiLep st then st else out_ee tlv t (i, j))"
  "valid_mumu tlv t (i, j) \<Longrightarrow>
     SelectDilepMuMu_mu2 tlv t i (muVec tlv t i) j st
       = (if sumPt_mumu tlv t (i, j) < maxPtDiLep st then st else out_mumu tlv t (i, j))"
proof -
  assume v: "valid_emu tlv t (i, j)"
  then have "SelectEl t i" by (simp add: valid_emu_def)
  then show "SelectDilepEMu_mu tlv t i (elVec tlv t i) j st
       = (if sumPt_emu tlv t (i, j) < maxPtDiLep st then st else out_emu tlv t (i, j))"
    using v by (simp add: emu_mu_step scan_step_def)
next
  assume v: "valid_ee tlv t (i, j)"
  then have "SelectEl t i" by (simp add: valid_ee_def)
  then show "SelectDilepEE_el2 tlv t i (elVec tlv t i) j st
       = (if sumPt_ee tlv t (i, j) < maxPtDiLep st then st else out_ee tlv t (i, j))"
    using v by (simp add: ee_el2_step scan_step_def)
next
  assume v: "valid_mumu tlv t (i, j)"
  then have "SelectMu t i" by (simp add: valid_mumu_def)
  then show "SelectDilepMuMu_mu2 tlv t i (muVec tlv t i) j st
       = (if sumPt_mumu tlv t (i, j) < maxPtDiLep st then st else out_mumu tlv t (i, j))"
    using v by (simp add: mumu_mu2_step scan_step_def)
qed

subsection \<open>Four-vectors over the reals\<close>

lemma ROOT_sel [simp]:
  "SetPtEtaPhiM ROOT = tlv_SetPtEtaPhiM" "Plus ROOT = tlv_plus" "M ROOT = tlv_M" "Pt ROOT = tlv_Pt"
  by (simp_all add: ROOT_def)

lemma tlv_Pt_SetPtEtaPhiM: "tlv_Pt (tlv_SetPtEtaPhiM p eta phi m) = \<bar>p\<bar>"
proof -
  have "\<bar>p\<bar> * cos phi * (\<bar>p\<bar> * cos phi) + \<bar>p\<bar> * sin phi * (\<bar>p\<bar> * sin phi)
          = (\<bar>p\<bar> * \<bar>p\<bar>) * (cos phi * cos phi + sin phi * sin phi)"
    by (simp only: algebra_simps)
  also have "\<dots> = \<bar>p\<bar> * \<bar>p\<bar>" by (simp only: sin_cos_squared_add3 mult_1_right)
  finally have "sqrt (\<bar>p\<bar> * cos phi * (\<bar>p\<bar> * cos phi) + \<bar>p\<bar> * sin phi * (\<bar>p\<bar> * sin phi)) = \<bar>p\<bar>"
    by simp
  then show ?thesis
    by (simp add: tlv_Pt_def tlv_SetPtEtaPhiM_def SetXYZM_def Let_def)
qed

lemma energy_bounds:
  fixes a m :: real
  assumes "0 \<le> a" "0 \<le> m"
  shows "a \<le> sqrt (a * a + m * m)" "sqrt (a * a + m * m) \<le> a + m"
proof -
  have "a\<^sup>2 \<le> a * a + m * m" by (simp add: power2_eq_square)
  then have "sqrt (a\<^sup>2) \<le> sqrt (a * a + m * m)" by (rule real_sqrt_le_mono)
  with assms show "a \<le> sqrt (a * a + m * m)" by simp
  have "a * a + m * m \<le> (a + m)\<^sup>2" using assms by (simp add: power2_eq_square algebra_simps)
  then have "sqrt (a * a + m * m) \<le> sqrt ((a + m)\<^sup>2)" by (rule real_sqrt_le_mono)
  with assms show "sqrt (a * a + m * m) \<le> a + m" by simp
qed

lemma vec_phi_0:
  "0 \<le> m \<Longrightarrow> tlv_SetPtEtaPhiM p 0 0 m
     = \<lparr>fX = \<bar>p\<bar>, fY = 0, fZ = 0, fE = sqrt (\<bar>p\<bar> * \<bar>p\<bar> + m * m)\<rparr>"
  by (simp add: tlv_SetPtEtaPhiM_def SetXYZM_def)

lemma vec_phi_pi:
  "0 \<le> m \<Longrightarrow> tlv_SetPtEtaPhiM p 0 pi m
     = \<lparr>fX = - \<bar>p\<bar>, fY = 0, fZ = 0, fE = sqrt (\<bar>p\<bar> * \<bar>p\<bar> + m * m)\<rparr>"
  by (simp add: tlv_SetPtEtaPhiM_def SetXYZM_def)

lemma Mag2_opposite:
  fixes a b ea eb m1 m2 :: real
  assumes a: "0 \<le> a" and b: "0 \<le> b" and ea: "a \<le> ea" "ea \<le> a + m1" and eb: "b \<le> eb" "eb \<le> b + m2"
  shows "4 * a * b \<le> (ea + eb) * (ea + eb) - (a - b) * (a - b)"
    and "(ea + eb) * (ea + eb) - (a - b) * (a - b) \<le> (a + b + m1 + m2)\<^sup>2 - (a - b)\<^sup>2"
proof -
  have lo: "a + b \<le> ea + eb" using ea eb by linarith
  have hi: "ea + eb \<le> a + b + m1 + m2" using ea eb by linarith
  have nn: "0 \<le> a + b" using a b by simp
  have "(a + b) * (a + b) \<le> (ea + eb) * (ea + eb)"
    using lo nn by (intro mult_mono) linarith+
  then show "4 * a * b \<le> (ea + eb) * (ea + eb) - (a - b) * (a - b)"
    by (simp add: algebra_simps)
  have "(ea + eb) * (ea + eb) \<le> (a + b + m1 + m2) * (a + b + m1 + m2)"
    using lo hi nn by (intro mult_mono) linarith+
  then show "(ea + eb) * (ea + eb) - (a - b) * (a - b) \<le> (a + b + m1 + m2)\<^sup>2 - (a - b)\<^sup>2"
    by (simp add: power2_eq_square)
qed

lemma Mag2_back_to_back:
  assumes "0 \<le> m1" "0 \<le> m2"
  shows "4 * \<bar>p1\<bar> * \<bar>p2\<bar> \<le> Mag2 (tlv_plus (tlv_SetPtEtaPhiM p1 0 0 m1) (tlv_SetPtEtaPhiM p2 0 pi m2))"
    and "Mag2 (tlv_plus (tlv_SetPtEtaPhiM p1 0 0 m1) (tlv_SetPtEtaPhiM p2 0 pi m2))
           \<le> (\<bar>p1\<bar> + \<bar>p2\<bar> + m1 + m2)\<^sup>2 - (\<bar>p1\<bar> - \<bar>p2\<bar>)\<^sup>2"
    and "4 * \<bar>p1\<bar> * \<bar>p2\<bar> \<le> Mag2 (tlv_plus (tlv_SetPtEtaPhiM p1 0 pi m1) (tlv_SetPtEtaPhiM p2 0 0 m2))"
    and "Mag2 (tlv_plus (tlv_SetPtEtaPhiM p1 0 pi m1) (tlv_SetPtEtaPhiM p2 0 0 m2))
           \<le> (\<bar>p1\<bar> + \<bar>p2\<bar> + m1 + m2)\<^sup>2 - (\<bar>p1\<bar> - \<bar>p2\<bar>)\<^sup>2"
proof -
  let ?e1 = "sqrt (\<bar>p1\<bar> * \<bar>p1\<bar> + m1 * m1)" and ?e2 = "sqrt (\<bar>p2\<bar> * \<bar>p2\<bar> + m2 * m2)"
  have e1: "\<bar>p1\<bar> \<le> ?e1" "?e1 \<le> \<bar>p1\<bar> + m1"
    using energy_bounds [of "\<bar>p1\<bar>" m1] assms by simp_all
  have e2: "\<bar>p2\<bar> \<le> ?e2" "?e2 \<le> \<bar>p2\<bar> + m2"
    using energy_bounds [of "\<bar>p2\<bar>" m2] assms by simp_all
  have b: "4 * \<bar>p1\<bar> * \<bar>p2\<bar> \<le> (?e1 + ?e2) * (?e1 + ?e2) - (\<bar>p1\<bar> - \<bar>p2\<bar>) * (\<bar>p1\<bar> - \<bar>p2\<bar>)"
    "(?e1 + ?e2) * (?e1 + ?e2) - (\<bar>p1\<bar> - \<bar>p2\<bar>) * (\<bar>p1\<bar> - \<bar>p2\<bar>)
       \<le> (\<bar>p1\<bar> + \<bar>p2\<bar> + m1 + m2)\<^sup>2 - (\<bar>p1\<bar> - \<bar>p2\<bar>)\<^sup>2"
    using Mag2_opposite [OF _ _ e1 e2] by simp_all
  have m: "Mag2 (tlv_plus (tlv_SetPtEtaPhiM p1 0 0 m1) (tlv_SetPtEtaPhiM p2 0 pi m2))
            = (?e1 + ?e2) * (?e1 + ?e2) - (\<bar>p1\<bar> - \<bar>p2\<bar>) * (\<bar>p1\<bar> - \<bar>p2\<bar>)"
    using assms by (simp add: vec_phi_0 vec_phi_pi tlv_plus_def Mag2_def)
  have m': "Mag2 (tlv_plus (tlv_SetPtEtaPhiM p1 0 pi m1) (tlv_SetPtEtaPhiM p2 0 0 m2))
            = (?e1 + ?e2) * (?e1 + ?e2) - (\<bar>p1\<bar> - \<bar>p2\<bar>) * (\<bar>p1\<bar> - \<bar>p2\<bar>)"
    using assms by (simp add: vec_phi_0 vec_phi_pi tlv_plus_def Mag2_def algebra_simps)
  show "4 * \<bar>p1\<bar> * \<bar>p2\<bar> \<le> Mag2 (tlv_plus (tlv_SetPtEtaPhiM p1 0 0 m1) (tlv_SetPtEtaPhiM p2 0 pi m2))"
    unfolding m by (rule b(1))
  show "Mag2 (tlv_plus (tlv_SetPtEtaPhiM p1 0 0 m1) (tlv_SetPtEtaPhiM p2 0 pi m2))
           \<le> (\<bar>p1\<bar> + \<bar>p2\<bar> + m1 + m2)\<^sup>2 - (\<bar>p1\<bar> - \<bar>p2\<bar>)\<^sup>2"
    unfolding m by (rule b(2))
  show "4 * \<bar>p1\<bar> * \<bar>p2\<bar> \<le> Mag2 (tlv_plus (tlv_SetPtEtaPhiM p1 0 pi m1) (tlv_SetPtEtaPhiM p2 0 0 m2))"
    unfolding m' by (rule b(1))
  show "Mag2 (tlv_plus (tlv_SetPtEtaPhiM p1 0 pi m1) (tlv_SetPtEtaPhiM p2 0 0 m2))
           \<le> (\<bar>p1\<bar> + \<bar>p2\<bar> + m1 + m2)\<^sup>2 - (\<bar>p1\<bar> - \<bar>p2\<bar>)\<^sup>2"
    unfolding m' by (rule b(2))
qed

lemma tlv_M_ge: "0 \<le> c \<Longrightarrow> c\<^sup>2 \<le> Mag2 v \<Longrightarrow> c \<le> tlv_M v"
proof -
  assume c: "0 \<le> c" and h: "c\<^sup>2 \<le> Mag2 v"
  then have "sqrt (c\<^sup>2) \<le> sqrt (Mag2 v)" by (intro real_sqrt_le_mono)
  moreover have "0 \<le> Mag2 v" using h zero_le_power2 [of c] by linarith
  ultimately show ?thesis using c by (simp add: tlv_M_def Let_def)
qed

lemma tlv_M_le: "0 \<le> c \<Longrightarrow> Mag2 v \<le> c\<^sup>2 \<Longrightarrow> tlv_M v \<le> c"
proof -
  assume c: "0 \<le> c" and h: "Mag2 v \<le> c\<^sup>2"
  then have "sqrt (Mag2 v) \<le> sqrt (c\<^sup>2)" by (intro real_sqrt_le_mono)
  then have "sqrt (Mag2 v) \<le> c" using c by simp
  moreover have "- sqrt (- Mag2 v) \<le> c" if "Mag2 v < 0"
  proof -
    from that have "0 \<le> sqrt (- Mag2 v)" by simp
    with c show ?thesis by linarith
  qed
  ultimately show ?thesis by (simp add: tlv_M_def Let_def)
qed

lemma tlv_M_gt: "0 \<le> c \<Longrightarrow> c\<^sup>2 < Mag2 v \<Longrightarrow> c < tlv_M v"
proof -
  assume c: "0 \<le> c" and h: "c\<^sup>2 < Mag2 v"
  then have "sqrt (c\<^sup>2) < sqrt (Mag2 v)" by (intro real_sqrt_less_mono)
  moreover have "0 \<le> Mag2 v" using h zero_le_power2 [of c] by linarith
  ultimately show ?thesis using c by (simp add: tlv_M_def Let_def)
qed

lemma tlv_M_lt: "0 < c \<Longrightarrow> Mag2 v < c\<^sup>2 \<Longrightarrow> tlv_M v < c"
proof -
  assume c: "0 < c" and h: "Mag2 v < c\<^sup>2"
  then have "sqrt (Mag2 v) < sqrt (c\<^sup>2)" by (intro real_sqrt_less_mono)
  then have "sqrt (Mag2 v) < c" using c by simp
  moreover have "- sqrt (- Mag2 v) < c" if "Mag2 v < 0"
  proof -
    from that have "0 \<le> sqrt (- Mag2 v)" by simp
    with c show ?thesis by linarith
  qed
  ultimately show ?thesis by (simp add: tlv_M_def Let_def)
qed

lemma mass_back_to_back:
  assumes "0 \<le> m1" "0 \<le> m2" "0 \<le> c"
  shows "c\<^sup>2 \<le> 4 * \<bar>p1\<bar> * \<bar>p2\<bar> \<Longrightarrow>
           c \<le> tlv_M (tlv_plus (tlv_SetPtEtaPhiM p1 0 0 m1) (tlv_SetPtEtaPhiM p2 0 pi m2))"
    and "c\<^sup>2 \<le> 4 * \<bar>p1\<bar> * \<bar>p2\<bar> \<Longrightarrow>
           c \<le> tlv_M (tlv_plus (tlv_SetPtEtaPhiM p1 0 pi m1) (tlv_SetPtEtaPhiM p2 0 0 m2))"
    and "(\<bar>p1\<bar> + \<bar>p2\<bar> + m1 + m2)\<^sup>2 - (\<bar>p1\<bar> - \<bar>p2\<bar>)\<^sup>2 \<le> c\<^sup>2 \<Longrightarrow>
           tlv_M (tlv_plus (tlv_SetPtEtaPhiM p1 0 0 m1) (tlv_SetPtEtaPhiM p2 0 pi m2)) \<le> c"
    and "(\<bar>p1\<bar> + \<bar>p2\<bar> + m1 + m2)\<^sup>2 - (\<bar>p1\<bar> - \<bar>p2\<bar>)\<^sup>2 \<le> c\<^sup>2 \<Longrightarrow>
           tlv_M (tlv_plus (tlv_SetPtEtaPhiM p1 0 pi m1) (tlv_SetPtEtaPhiM p2 0 0 m2)) \<le> c"
  using assms Mag2_back_to_back [of m1 m2 p1 p2]
  by (auto intro!: tlv_M_ge tlv_M_le elim: order_trans)

lemma mass_back_to_back_strict:
  assumes "0 \<le> m1" "0 \<le> m2" "0 < c"
  shows "c\<^sup>2 < 4 * \<bar>p1\<bar> * \<bar>p2\<bar> \<Longrightarrow>
           c < tlv_M (tlv_plus (tlv_SetPtEtaPhiM p1 0 0 m1) (tlv_SetPtEtaPhiM p2 0 pi m2))"
    and "c\<^sup>2 < 4 * \<bar>p1\<bar> * \<bar>p2\<bar> \<Longrightarrow>
           c < tlv_M (tlv_plus (tlv_SetPtEtaPhiM p1 0 pi m1) (tlv_SetPtEtaPhiM p2 0 0 m2))"
    and "(\<bar>p1\<bar> + \<bar>p2\<bar> + m1 + m2)\<^sup>2 - (\<bar>p1\<bar> - \<bar>p2\<bar>)\<^sup>2 < c\<^sup>2 \<Longrightarrow>
           tlv_M (tlv_plus (tlv_SetPtEtaPhiM p1 0 0 m1) (tlv_SetPtEtaPhiM p2 0 pi m2)) < c"
    and "(\<bar>p1\<bar> + \<bar>p2\<bar> + m1 + m2)\<^sup>2 - (\<bar>p1\<bar> - \<bar>p2\<bar>)\<^sup>2 < c\<^sup>2 \<Longrightarrow>
           tlv_M (tlv_plus (tlv_SetPtEtaPhiM p1 0 pi m1) (tlv_SetPtEtaPhiM p2 0 0 m2)) < c"
  using assms Mag2_back_to_back [of m1 m2 p1 p2]
  by (auto intro!: tlv_M_gt tlv_M_lt elim: less_le_trans le_less_trans)

lemma mass_collinear:
  assumes m: "0 \<le> m1" "0 \<le> m2" and c: "0 < c"
    and b: "(\<bar>p1\<bar> + \<bar>p2\<bar> + m1 + m2)\<^sup>2 - (\<bar>p1\<bar> + \<bar>p2\<bar>)\<^sup>2 < c\<^sup>2"
  shows "tlv_M (tlv_plus (tlv_SetPtEtaPhiM p1 0 0 m1) (tlv_SetPtEtaPhiM p2 0 0 m2)) < c"
proof -
  let ?e1 = "sqrt (\<bar>p1\<bar> * \<bar>p1\<bar> + m1 * m1)" and ?e2 = "sqrt (\<bar>p2\<bar> * \<bar>p2\<bar> + m2 * m2)"
  have e1: "\<bar>p1\<bar> \<le> ?e1" "?e1 \<le> \<bar>p1\<bar> + m1"
    using energy_bounds [of "\<bar>p1\<bar>" m1] m by simp_all
  have e2: "\<bar>p2\<bar> \<le> ?e2" "?e2 \<le> \<bar>p2\<bar> + m2"
    using energy_bounds [of "\<bar>p2\<bar>" m2] m by simp_all
  have "(?e1 + ?e2) * (?e1 + ?e2) \<le> (\<bar>p1\<bar> + \<bar>p2\<bar> + m1 + m2) * (\<bar>p1\<bar> + \<bar>p2\<bar> + m1 + m2)"
    using e1 e2 by (intro mult_mono) linarith+
  moreover have "Mag2 (tlv_plus (tlv_SetPtEtaPhiM p1 0 0 m1) (tlv_SetPtEtaPhiM p2 0 0 m2))
          = (?e1 + ?e2) * (?e1 + ?e2) - (\<bar>p1\<bar> + \<bar>p2\<bar>) * (\<bar>p1\<bar> + \<bar>p2\<bar>)"
    using m by (simp add: vec_phi_0 tlv_plus_def Mag2_def)
  ultimately have "Mag2 (tlv_plus (tlv_SetPtEtaPhiM p1 0 0 m1) (tlv_SetPtEtaPhiM p2 0 0 m2)) < c\<^sup>2"
    using b by (simp add: power2_eq_square)
  with c show ?thesis by (rule tlv_M_lt)
qed

subsection \<open>The selectors on the events\<close>

lemma max_st_init: "maxPtDiLep st_init = - 1"
  by (simp add: st_init_def)

lemma st_init_not_out [simp]:
  "out_emu ROOT t p \<noteq> st_init" "out_ee ROOT t p \<noteq> st_init" "out_mumu ROOT t p \<noteq> st_init"
proof -
  have "maxPtDiLep (out_emu ROOT t p) \<noteq> maxPtDiLep st_init"
    by (simp add: sumPt_emu_def elVec_def muVec_def tlv_Pt_SetPtEtaPhiM st_init_def)
  then show "out_emu ROOT t p \<noteq> st_init" by metis
  have "maxPtDiLep (out_ee ROOT t p) \<noteq> maxPtDiLep st_init"
    by (simp add: sumPt_ee_def elVec_def muVec_def tlv_Pt_SetPtEtaPhiM st_init_def)
  then show "out_ee ROOT t p \<noteq> st_init" by metis
  have "maxPtDiLep (out_mumu ROOT t p) \<noteq> maxPtDiLep st_init"
    by (simp add: sumPt_mumu_def elVec_def muVec_def tlv_Pt_SetPtEtaPhiM st_init_def)
  then show "out_mumu ROOT t p \<noteq> st_init" by metis
qed

lemma pairs_event_all:
  "pairs_emu event_all = [(0, 0), (0, Suc 0), (Suc 0, 0), (Suc 0, Suc 0)]"
  "pairs_ee event_all = [(0, Suc 0)]"
  "pairs_mumu event_all = [(0, Suc 0)]"
  by (simp_all add: pairs_emu_def pairs_ee_def pairs_mumu_def event_all_def upt_rec)

lemma quality_event_all:
  "SelectEl event_all 0" "SelectEl event_all 1"
  "SelectMu event_all 0" "SelectMu event_all 1"
  by (simp_all add: SelectEl_def SelectMu_def event_all_def)

lemma mass_event_all:
  "12 \<le> mass_emu ROOT event_all (0, 0)"
  "12 \<le> mass_emu ROOT event_all (Suc 0, Suc 0)"
  "12 \<le> mass_ee ROOT event_all (0, Suc 0)" "mass_ee ROOT event_all (0, Suc 0) \<le> 76"
  "12 \<le> mass_mumu ROOT event_all (0, Suc 0)" "mass_mumu ROOT event_all (0, Suc 0) \<le> 76"
  by (simp_all add: mass_emu_def mass_ee_def mass_mumu_def elVec_def muVec_def event_all_def
      massEl_def massMu_def mass_back_to_back power2_eq_square)

lemma valid_event_all:
  "valid_emu ROOT event_all (0, 0)" "\<not> valid_emu ROOT event_all (0, Suc 0)"
  "\<not> valid_emu ROOT event_all (Suc 0, 0)" "valid_emu ROOT event_all (Suc 0, Suc 0)"
  "valid_ee ROOT event_all (0, Suc 0)" "valid_mumu ROOT event_all (0, Suc 0)"
  using mass_event_all quality_event_all
  by (simp_all add: valid_emu_def valid_ee_def valid_mumu_def)
    (simp_all add: event_all_def)

lemma sums_event_all:
  "sumPt_emu ROOT event_all (0, 0) = 55" "sumPt_emu ROOT event_all (Suc 0, Suc 0) = 75"
  "sumPt_ee ROOT event_all (0, Suc 0) = 70" "sumPt_mumu ROOT event_all (0, Suc 0) = 60"
  by (simp_all add: sumPt_emu_def sumPt_ee_def sumPt_mumu_def elVec_def muVec_def
      tlv_Pt_SetPtEtaPhiM event_all_def)

lemma run_event_all:
  "SelectDilepEMu ROOT event_all s
     = (if 75 < maxPtDiLep s then s else out_emu ROOT event_all (Suc 0, Suc 0))"
  "SelectDilepEE ROOT event_all s
     = (if 70 < maxPtDiLep s then s else out_ee ROOT event_all (0, Suc 0))"
  "SelectDilepMuMu ROOT event_all s
     = (if 60 < maxPtDiLep s then s else out_mumu ROOT event_all (0, Suc 0))"
  by (simp_all add: selectors_scan pairs_event_all scan_step_def valid_event_all sums_event_all
      not_less)

lemma upd_event_all:
  "SelectDilepEMu ROOT event_all st_init \<noteq> st_init"
  "SelectDilepEE ROOT event_all st_init \<noteq> st_init"
  "SelectDilepMuMu ROOT event_all st_init \<noteq> st_init"
  by (simp_all add: run_event_all) (simp_all add: st_init_def)

lemma run_event_all_init:
  "SelectDilepEMu ROOT event_all st_init = out_emu ROOT event_all (Suc 0, Suc 0)"
  "SelectDilepEE ROOT event_all st_init = out_ee ROOT event_all (0, Suc 0)"
  "SelectDilepMuMu ROOT event_all st_init = out_mumu ROOT event_all (0, Suc 0)"
  by (simp_all add: run_event_all) (simp_all add: st_init_def)

lemma pairs_event_tie:
  "pairs_emu event_tie = [(0, 0), (0, Suc 0), (Suc 0, 0), (Suc 0, Suc 0)]"
  by (simp add: pairs_emu_def event_tie_def upt_rec)

lemma mass_event_tie:
  "12 \<le> mass_emu ROOT event_tie (0, 0)"
  "12 \<le> mass_emu ROOT event_tie (Suc 0, Suc 0)"
  by (simp_all add: mass_emu_def elVec_def muVec_def event_tie_def
      massEl_def massMu_def mass_back_to_back power2_eq_square)

lemma valid_event_tie:
  "valid_emu ROOT event_tie (0, 0)" "\<not> valid_emu ROOT event_tie (0, Suc 0)"
  "\<not> valid_emu ROOT event_tie (Suc 0, 0)" "valid_emu ROOT event_tie (Suc 0, Suc 0)"
  using mass_event_tie
  by (simp_all add: valid_emu_def) (simp_all add: event_tie_def SelectEl_def SelectMu_def)

lemma sums_event_tie:
  "sumPt_emu ROOT event_tie (0, 0) = 50" "sumPt_emu ROOT event_tie (Suc 0, Suc 0) = 50"
  by (simp_all add: sumPt_emu_def elVec_def muVec_def tlv_Pt_SetPtEtaPhiM event_tie_def)

lemma outs_event_tie:
  "out_emu ROOT event_tie (0, 0)
     = \<lparr>vecLepM = elVec ROOT event_tie 0, vecLepP = muVec ROOT event_tie 0, maxPtDiLep = 50\<rparr>"
  "out_emu ROOT event_tie (Suc 0, Suc 0)
     = \<lparr>vecLepM = muVec ROOT event_tie (Suc 0), vecLepP = elVec ROOT event_tie (Suc 0),
        maxPtDiLep = 50\<rparr>"
  by (simp_all add: out_emu_def sums_event_tie) (simp_all add: event_tie_def)

lemma vecs_event_tie:
  "fX (elVec ROOT event_tie 0) = 30" "fX (muVec ROOT event_tie (Suc 0)) = 25"
  by (simp_all add: elVec_def muVec_def event_tie_def massEl_def massMu_def vec_phi_0)

lemma run_event_tie:
  "SelectDilepEMu ROOT event_tie st_init = out_emu ROOT event_tie (Suc 0, Suc 0)"
  by (simp add: SelectDilepEMu_scan pairs_event_tie scan_step_def valid_event_tie
      sums_event_tie st_init_def)

lemma pairs_event_zwindow:
  "pairs_emu event_zwindow = [(0, 0), (0, Suc 0), (Suc 0, 0), (Suc 0, Suc 0)]"
  "pairs_ee event_zwindow = [(0, Suc 0)]"
  "pairs_mumu event_zwindow = [(0, Suc 0)]"
  by (simp_all add: pairs_emu_def pairs_ee_def pairs_mumu_def event_zwindow_def upt_rec)

lemma mass_event_zwindow:
  "76 < mass_emu ROOT event_zwindow (0, 0)" "mass_emu ROOT event_zwindow (0, 0) < 106"
  "12 \<le> mass_emu ROOT event_zwindow (Suc 0, Suc 0)"
  "76 < mass_ee ROOT event_zwindow (0, Suc 0)" "mass_ee ROOT event_zwindow (0, Suc 0) < 106"
  "76 < mass_mumu ROOT event_zwindow (0, Suc 0)" "mass_mumu ROOT event_zwindow (0, Suc 0) < 106"
  by (simp_all add: mass_emu_def mass_ee_def mass_mumu_def elVec_def muVec_def event_zwindow_def
      massEl_def massMu_def mass_back_to_back mass_back_to_back_strict power2_eq_square)

lemma valid_event_zwindow:
  "valid_emu ROOT event_zwindow (0, 0)" "\<not> valid_emu ROOT event_zwindow (0, Suc 0)"
  "\<not> valid_emu ROOT event_zwindow (Suc 0, 0)" "valid_emu ROOT event_zwindow (Suc 0, Suc 0)"
  "\<not> valid_ee ROOT event_zwindow (0, Suc 0)" "\<not> valid_mumu ROOT event_zwindow (0, Suc 0)"
  using mass_event_zwindow
  by (simp_all add: valid_emu_def valid_ee_def valid_mumu_def)
    (simp_all add: event_zwindow_def SelectEl_def SelectMu_def)

lemma sums_event_zwindow:
  "sumPt_emu ROOT event_zwindow (0, 0) = 90" "sumPt_emu ROOT event_zwindow (Suc 0, Suc 0) = 85"
  by (simp_all add: sumPt_emu_def elVec_def muVec_def tlv_Pt_SetPtEtaPhiM event_zwindow_def)

lemma run_event_zwindow:
  "SelectDilepEMu ROOT event_zwindow st_init = out_emu ROOT event_zwindow (0, 0)"
  by (simp add: SelectDilepEMu_scan pairs_event_zwindow scan_step_def valid_event_zwindow
      sums_event_zwindow st_init_def)

lemma pairs_event_misshit: "pairs_emu event_misshit = [(0, 0)]"
  by (simp add: pairs_emu_def event_misshit_def upt_rec)

lemma valid_event_misshit: "\<not> valid_emu ROOT event_misshit (0, 0)"
  by (simp add: valid_emu_def SelectEl_def event_misshit_def)

lemma mass_event_collinear:
  "mass_emu ROOT event_collinear (0, 0) < 12"
  "mass_ee ROOT event_collinear (0, Suc 0) < 12"
  "mass_mumu ROOT event_collinear (0, Suc 0) < 12"
  by (simp_all add: mass_emu_def mass_ee_def mass_mumu_def elVec_def muVec_def
      event_collinear_def massEl_def massMu_def mass_collinear power2_eq_square)

lemma products_event_same_sign:
  "0 < elPt event_same_sign ! 0 * elPt event_same_sign ! Suc 0"
  "0 < muPt event_same_sign ! 0 * muPt event_same_sign ! Suc 0"
  by (simp_all add: event_same_sign_def)

section \<open>The claims\<close>

text \<open>
  C1, as amended. The claim says that a pair whose sum is not strictly greater than the
  running best is skipped, so that of two valid pairs with the same sum the first is kept.
  The source skips a pair only when its sum is strictly below the running best
  (\<^verbatim>\<open>if(sumPt < maxPtDiLep) continue;\<close>): a valid pair whose sum equals the running
  best overwrites the output. So, for each selector: if a valid pair \<open>p\<close> of the
  enumeration has a sum that is at least the value of the accumulator on entry and at
  least the sum of every valid pair before it, and strictly greater than the sum of every
  valid pair after it, then the output on exit is the output of \<open>p\<close>: among valid pairs
  of equal maximal sum the last one enumerated is retained. And the loop body, on a valid
  pair, leaves the state unchanged when the pair's sum is strictly below the running best
  and writes the pair otherwise.
\<close>

theorem equal_sum_overwrites:
  "(pairs_emu t = xs @ p # ys \<and> valid_emu tlv t p \<and> maxPtDiLep st \<le> sumPt_emu tlv t p
      \<and> (\<forall>q\<in>set xs. valid_emu tlv t q \<longrightarrow> sumPt_emu tlv t q \<le> sumPt_emu tlv t p)
      \<and> (\<forall>q\<in>set ys. valid_emu tlv t q \<longrightarrow> sumPt_emu tlv t q < sumPt_emu tlv t p)
    \<longrightarrow> SelectDilepEMu tlv t st = out_emu tlv t p)
   \<and> (pairs_ee t = xs @ p # ys \<and> valid_ee tlv t p \<and> maxPtDiLep st \<le> sumPt_ee tlv t p
      \<and> (\<forall>q\<in>set xs. valid_ee tlv t q \<longrightarrow> sumPt_ee tlv t q \<le> sumPt_ee tlv t p)
      \<and> (\<forall>q\<in>set ys. valid_ee tlv t q \<longrightarrow> sumPt_ee tlv t q < sumPt_ee tlv t p)
    \<longrightarrow> SelectDilepEE tlv t st = out_ee tlv t p)
   \<and> (pairs_mumu t = xs @ p # ys \<and> valid_mumu tlv t p \<and> maxPtDiLep st \<le> sumPt_mumu tlv t p
      \<and> (\<forall>q\<in>set xs. valid_mumu tlv t q \<longrightarrow> sumPt_mumu tlv t q \<le> sumPt_mumu tlv t p)
      \<and> (\<forall>q\<in>set ys. valid_mumu tlv t q \<longrightarrow> sumPt_mumu tlv t q < sumPt_mumu tlv t p)
    \<longrightarrow> SelectDilepMuMu tlv t st = out_mumu tlv t p)
   \<and> (valid_emu tlv t (i, j) \<longrightarrow>
        SelectDilepEMu_mu tlv t i (elVec tlv t i) j s
          = (if sumPt_emu tlv t (i, j) < maxPtDiLep s then s else out_emu tlv t (i, j)))
   \<and> (valid_ee tlv t (i, j) \<longrightarrow>
        SelectDilepEE_el2 tlv t i (elVec tlv t i) j s
          = (if sumPt_ee tlv t (i, j) < maxPtDiLep s then s else out_ee tlv t (i, j)))
   \<and> (valid_mumu tlv t (i, j) \<longrightarrow>
        SelectDilepMuMu_mu2 tlv t i (muVec tlv t i) j s
          = (if sumPt_mumu tlv t (i, j) < maxPtDiLep s then s else out_mumu tlv t (i, j)))"
proof (intro conjI impI)
  assume "pairs_emu t = xs @ p # ys \<and> valid_emu tlv t p \<and> maxPtDiLep st \<le> sumPt_emu tlv t p
      \<and> (\<forall>q\<in>set xs. valid_emu tlv t q \<longrightarrow> sumPt_emu tlv t q \<le> sumPt_emu tlv t p)
      \<and> (\<forall>q\<in>set ys. valid_emu tlv t q \<longrightarrow> sumPt_emu tlv t q < sumPt_emu tlv t p)"
  then show "SelectDilepEMu tlv t st = out_emu tlv t p"
    unfolding selectors_scan
    by (intro scan_last_max [of "out_emu tlv t" "sumPt_emu tlv t" _ xs p ys]) simp_all
next
  assume "pairs_ee t = xs @ p # ys \<and> valid_ee tlv t p \<and> maxPtDiLep st \<le> sumPt_ee tlv t p
      \<and> (\<forall>q\<in>set xs. valid_ee tlv t q \<longrightarrow> sumPt_ee tlv t q \<le> sumPt_ee tlv t p)
      \<and> (\<forall>q\<in>set ys. valid_ee tlv t q \<longrightarrow> sumPt_ee tlv t q < sumPt_ee tlv t p)"
  then show "SelectDilepEE tlv t st = out_ee tlv t p"
    unfolding selectors_scan
    by (intro scan_last_max [of "out_ee tlv t" "sumPt_ee tlv t" _ xs p ys]) simp_all
next
  assume "pairs_mumu t = xs @ p # ys \<and> valid_mumu tlv t p
      \<and> maxPtDiLep st \<le> sumPt_mumu tlv t p
      \<and> (\<forall>q\<in>set xs. valid_mumu tlv t q \<longrightarrow> sumPt_mumu tlv t q \<le> sumPt_mumu tlv t p)
      \<and> (\<forall>q\<in>set ys. valid_mumu tlv t q \<longrightarrow> sumPt_mumu tlv t q < sumPt_mumu tlv t p)"
  then show "SelectDilepMuMu tlv t st = out_mumu tlv t p"
    unfolding selectors_scan
    by (intro scan_last_max [of "out_mumu tlv t" "sumPt_mumu tlv t" _ xs p ys]) simp_all
qed (simp_all only: inner_valid)

theorem equal_sum_overwrites_witness:
  "pairs_emu event_tie = [(0, 0), (0, 1), (1, 0)] @ (1, 1) # []
   \<and> valid_emu ROOT event_tie (0, 0) \<and> valid_emu ROOT event_tie (1, 1)
   \<and> sumPt_emu ROOT event_tie (0, 0) = sumPt_emu ROOT event_tie (1, 1)
   \<and> maxPtDiLep st_init \<le> sumPt_emu ROOT event_tie (1, 1)
   \<and> SelectDilepEMu ROOT event_tie st_init = out_emu ROOT event_tie (1, 1)
   \<and> SelectDilepEMu_mu ROOT event_tie 1 (elVec ROOT event_tie 1) 1 (out_emu ROOT event_tie (0, 0))
       = out_emu ROOT event_tie (1, 1)
   \<and> pairs_emu event_zwindow = [] @ (0, 0) # [(0, 1), (1, 0), (1, 1)]
   \<and> valid_emu ROOT event_zwindow (1, 1)
   \<and> sumPt_emu ROOT event_zwindow (1, 1) < sumPt_emu ROOT event_zwindow (0, 0)
   \<and> SelectDilepEMu ROOT event_zwindow st_init = out_emu ROOT event_zwindow (0, 0)
   \<and> SelectDilepEMu_mu ROOT event_zwindow 1 (elVec ROOT event_zwindow 1) 1
         (out_emu ROOT event_zwindow (0, 0))
       = out_emu ROOT event_zwindow (0, 0)
   \<and> pairs_ee event_all = [] @ (0, 1) # [] \<and> valid_ee ROOT event_all (0, 1)
   \<and> SelectDilepEE ROOT event_all st_init = out_ee ROOT event_all (0, 1)
   \<and> SelectDilepEE_el2 ROOT event_all 0 (elVec ROOT event_all 0) 1 st_init
       = out_ee ROOT event_all (0, 1)
   \<and> pairs_mumu event_all = [] @ (0, 1) # [] \<and> valid_mumu ROOT event_all (0, 1)
   \<and> SelectDilepMuMu ROOT event_all st_init = out_mumu ROOT event_all (0, 1)
   \<and> SelectDilepMuMu_mu2 ROOT event_all 0 (muVec ROOT event_all 0) 1 st_init
       = out_mumu ROOT event_all (0, 1)"
proof -
  have tie: "pairs_emu event_tie = [(0, 0), (0, Suc 0), (Suc 0, 0)] @ (Suc 0, Suc 0) # []
      \<and> valid_emu ROOT event_tie (Suc 0, Suc 0)
      \<and> maxPtDiLep st_init \<le> sumPt_emu ROOT event_tie (Suc 0, Suc 0)
      \<and> (\<forall>q\<in>set [(0, 0), (0, Suc 0), (Suc 0, 0)]. valid_emu ROOT event_tie q \<longrightarrow>
            sumPt_emu ROOT event_tie q \<le> sumPt_emu ROOT event_tie (Suc 0, Suc 0))
      \<and> (\<forall>q\<in>set []. valid_emu ROOT event_tie q \<longrightarrow>
            sumPt_emu ROOT event_tie q < sumPt_emu ROOT event_tie (Suc 0, Suc 0))"
    by (simp add: pairs_event_tie valid_event_tie sums_event_tie max_st_init)
  have zwin: "pairs_emu event_zwindow = [] @ (0, 0) # [(0, Suc 0), (Suc 0, 0), (Suc 0, Suc 0)]
      \<and> valid_emu ROOT event_zwindow (0, 0)
      \<and> maxPtDiLep st_init \<le> sumPt_emu ROOT event_zwindow (0, 0)
      \<and> (\<forall>q\<in>set []. valid_emu ROOT event_zwindow q \<longrightarrow>
            sumPt_emu ROOT event_zwindow q \<le> sumPt_emu ROOT event_zwindow (0, 0))
      \<and> (\<forall>q\<in>set [(0, Suc 0), (Suc 0, 0), (Suc 0, Suc 0)]. valid_emu ROOT event_zwindow q \<longrightarrow>
            sumPt_emu ROOT event_zwindow q < sumPt_emu ROOT event_zwindow (0, 0))"
    by (simp add: pairs_event_zwindow valid_event_zwindow sums_event_zwindow max_st_init)
  have ee: "pairs_ee event_all = [] @ (0, Suc 0) # [] \<and> valid_ee ROOT event_all (0, Suc 0)
      \<and> maxPtDiLep st_init \<le> sumPt_ee ROOT event_all (0, Suc 0)
      \<and> (\<forall>q\<in>set []. valid_ee ROOT event_all q \<longrightarrow>
            sumPt_ee ROOT event_all q \<le> sumPt_ee ROOT event_all (0, Suc 0))
      \<and> (\<forall>q\<in>set []. valid_ee ROOT event_all q \<longrightarrow>
            sumPt_ee ROOT event_all q < sumPt_ee ROOT event_all (0, Suc 0))"
    by (simp add: pairs_event_all valid_event_all sums_event_all max_st_init)
  have mumu: "pairs_mumu event_all = [] @ (0, Suc 0) # [] \<and> valid_mumu ROOT event_all (0, Suc 0)
      \<and> maxPtDiLep st_init \<le> sumPt_mumu ROOT event_all (0, Suc 0)
      \<and> (\<forall>q\<in>set []. valid_mumu ROOT event_all q \<longrightarrow>
            sumPt_mumu ROOT event_all q \<le> sumPt_mumu ROOT event_all (0, Suc 0))
      \<and> (\<forall>q\<in>set []. valid_mumu ROOT event_all q \<longrightarrow>
            sumPt_mumu ROOT event_all q < sumPt_mumu ROOT event_all (0, Suc 0))"
    by (simp add: pairs_event_all valid_event_all sums_event_all max_st_init)
  note c1 = equal_sum_overwrites [of event_tie "[(0, 0), (0, Suc 0), (Suc 0, 0)]" "(Suc 0, Suc 0)"
      "[]" ROOT st_init "Suc 0" "Suc 0" "out_emu ROOT event_tie (0, 0)"]
  note c2 = equal_sum_overwrites [of event_zwindow "[]" "(0, 0)"
      "[(0, Suc 0), (Suc 0, 0), (Suc 0, Suc 0)]" ROOT st_init "Suc 0" "Suc 0"
      "out_emu ROOT event_zwindow (0, 0)"]
  note c3 = equal_sum_overwrites [of event_all "[]" "(0, Suc 0)" "[]" ROOT st_init 0 "Suc 0"
      st_init]
  from c1 tie have r1: "SelectDilepEMu ROOT event_tie st_init = out_emu ROOT event_tie (Suc 0, Suc 0)"
    by blast
  from c1 valid_event_tie(4)
  have s1: "SelectDilepEMu_mu ROOT event_tie (Suc 0) (elVec ROOT event_tie (Suc 0)) (Suc 0)
              (out_emu ROOT event_tie (0, 0))
       = (if sumPt_emu ROOT event_tie (Suc 0, Suc 0) < maxPtDiLep (out_emu ROOT event_tie (0, 0))
          then out_emu ROOT event_tie (0, 0) else out_emu ROOT event_tie (Suc 0, Suc 0))"
    by blast
  from c2 zwin
  have r2: "SelectDilepEMu ROOT event_zwindow st_init = out_emu ROOT event_zwindow (0, 0)"
    by blast
  from c2 valid_event_zwindow(4)
  have s2: "SelectDilepEMu_mu ROOT event_zwindow (Suc 0) (elVec ROOT event_zwindow (Suc 0)) (Suc 0)
              (out_emu ROOT event_zwindow (0, 0))
       = (if sumPt_emu ROOT event_zwindow (Suc 0, Suc 0)
               < maxPtDiLep (out_emu ROOT event_zwindow (0, 0))
          then out_emu ROOT event_zwindow (0, 0) else out_emu ROOT event_zwindow (Suc 0, Suc 0))"
    by blast
  from c3 ee have r3: "SelectDilepEE ROOT event_all st_init = out_ee ROOT event_all (0, Suc 0)"
    by blast
  from c3 mumu
  have r4: "SelectDilepMuMu ROOT event_all st_init = out_mumu ROOT event_all (0, Suc 0)"
    by blast
  from c3 valid_event_all(5)
  have s3: "SelectDilepEE_el2 ROOT event_all 0 (elVec ROOT event_all 0) (Suc 0) st_init
       = (if sumPt_ee ROOT event_all (0, Suc 0) < maxPtDiLep st_init then st_init
          else out_ee ROOT event_all (0, Suc 0))"
    by blast
  from c3 valid_event_all(6)
  have s4: "SelectDilepMuMu_mu2 ROOT event_all 0 (muVec ROOT event_all 0) (Suc 0) st_init
       = (if sumPt_mumu ROOT event_all (0, Suc 0) < maxPtDiLep st_init then st_init
          else out_mumu ROOT event_all (0, Suc 0))"
    by blast
  show ?thesis
    by (simp add: r1 r2 r3 r4 s1 s2 s3 s4 sums_event_all pairs_event_tie pairs_event_zwindow pairs_event_all
        valid_event_tie valid_event_zwindow valid_event_all sums_event_tie sums_event_zwindow
        max_st_init)
qed

text \<open>
  The claim as stated fails on \<open>event_tie\<close>: both valid pairs have the sum 50; when the
  second pair is reached the running best is 50, the pair's sum is not strictly greater,
  and yet the body overwrites the output; on exit the selector holds the second pair.
\<close>

theorem tie_counterexample:
  "pairs_emu event_tie = [(0, 0), (0, 1), (1, 0), (1, 1)]
   \<and> valid_emu ROOT event_tie (0, 0) \<and> valid_emu ROOT event_tie (1, 1)
   \<and> sumPt_emu ROOT event_tie (0, 0) = 50 \<and> sumPt_emu ROOT event_tie (1, 1) = 50
   \<and> maxPtDiLep (out_emu ROOT event_tie (0, 0)) = 50
   \<and> \<not> maxPtDiLep (out_emu ROOT event_tie (0, 0)) < sumPt_emu ROOT event_tie (1, 1)
   \<and> SelectDilepEMu_mu ROOT event_tie 1 (elVec ROOT event_tie 1) 1 (out_emu ROOT event_tie (0, 0))
       \<noteq> out_emu ROOT event_tie (0, 0)
   \<and> SelectDilepEMu ROOT event_tie st_init = out_emu ROOT event_tie (1, 1)
   \<and> SelectDilepEMu ROOT event_tie st_init \<noteq> out_emu ROOT event_tie (0, 0)
   \<and> vecLepM (out_emu ROOT event_tie (0, 0)) = elVec ROOT event_tie 0
   \<and> fX (elVec ROOT event_tie 0) = 30
   \<and> vecLepM (SelectDilepEMu ROOT event_tie st_init) = muVec ROOT event_tie 1
   \<and> vecLepP (SelectDilepEMu ROOT event_tie st_init) = elVec ROOT event_tie 1
   \<and> fX (vecLepM (SelectDilepEMu ROOT event_tie st_init)) = 25"
proof -
  have "fX (vecLepM (out_emu ROOT event_tie (Suc 0, Suc 0)))
          \<noteq> fX (vecLepM (out_emu ROOT event_tie (0, 0)))"
    by (simp add: outs_event_tie vecs_event_tie)
  then have ne: "out_emu ROOT event_tie (Suc 0, Suc 0) \<noteq> out_emu ROOT event_tie (0, 0)"
    by metis
  have "SelectDilepEMu_mu ROOT event_tie (Suc 0) (elVec ROOT event_tie (Suc 0)) (Suc 0)
          (out_emu ROOT event_tie (0, 0)) = out_emu ROOT event_tie (Suc 0, Suc 0)"
    by (simp add: inner_valid valid_event_tie sums_event_tie)
  with ne show ?thesis
    by (simp add: pairs_event_tie valid_event_tie sums_event_tie run_event_tie outs_event_tie
        vecs_event_tie)
qed

text \<open>
  C2. For each selector, when the accumulator on entry is below the sum of every valid
  pair of the event, the sum recorded on exit is greater than or equal to the sum of
  every valid pair, and, when the event has a valid pair, the state on exit is the output
  written for one of the valid pairs.
\<close>

theorem selected_sum_is_maximal:
  "((\<forall>p\<in>set (pairs_emu t). valid_emu tlv t p \<longrightarrow> maxPtDiLep st < sumPt_emu tlv t p) \<longrightarrow>
      (\<forall>p\<in>set (pairs_emu t). valid_emu tlv t p \<longrightarrow>
          sumPt_emu tlv t p \<le> maxPtDiLep (SelectDilepEMu tlv t st))
      \<and> ((\<exists>p\<in>set (pairs_emu t). valid_emu tlv t p) \<longrightarrow>
          (\<exists>p\<in>set (pairs_emu t). valid_emu tlv t p \<and> SelectDilepEMu tlv t st = out_emu tlv t p)))
   \<and> ((\<forall>p\<in>set (pairs_ee t). valid_ee tlv t p \<longrightarrow> maxPtDiLep st < sumPt_ee tlv t p) \<longrightarrow>
      (\<forall>p\<in>set (pairs_ee t). valid_ee tlv t p \<longrightarrow>
          sumPt_ee tlv t p \<le> maxPtDiLep (SelectDilepEE tlv t st))
      \<and> ((\<exists>p\<in>set (pairs_ee t). valid_ee tlv t p) \<longrightarrow>
          (\<exists>p\<in>set (pairs_ee t). valid_ee tlv t p \<and> SelectDilepEE tlv t st = out_ee tlv t p)))
   \<and> ((\<forall>p\<in>set (pairs_mumu t). valid_mumu tlv t p \<longrightarrow> maxPtDiLep st < sumPt_mumu tlv t p) \<longrightarrow>
      (\<forall>p\<in>set (pairs_mumu t). valid_mumu tlv t p \<longrightarrow>
          sumPt_mumu tlv t p \<le> maxPtDiLep (SelectDilepMuMu tlv t st))
      \<and> ((\<exists>p\<in>set (pairs_mumu t). valid_mumu tlv t p) \<longrightarrow>
          (\<exists>p\<in>set (pairs_mumu t). valid_mumu tlv t p
              \<and> SelectDilepMuMu tlv t st = out_mumu tlv t p)))"
  unfolding selectors_scan by (intro conjI scan_maximal out_max)

theorem selected_sum_is_maximal_witness:
  "list_all (\<lambda>p. valid_emu ROOT event_all p \<longrightarrow> maxPtDiLep st_init < sumPt_emu ROOT event_all p)
      (pairs_emu event_all)
   \<and> list_all (\<lambda>p. valid_emu ROOT event_all p \<longrightarrow>
        sumPt_emu ROOT event_all p \<le> maxPtDiLep (SelectDilepEMu ROOT event_all st_init))
      (pairs_emu event_all)
   \<and> maxPtDiLep (SelectDilepEMu ROOT event_all st_init) = 75
   \<and> list_all (\<lambda>p. valid_ee ROOT event_all p \<longrightarrow> maxPtDiLep st_init < sumPt_ee ROOT event_all p)
      (pairs_ee event_all)
   \<and> list_all (\<lambda>p. valid_ee ROOT event_all p \<longrightarrow>
        sumPt_ee ROOT event_all p \<le> maxPtDiLep (SelectDilepEE ROOT event_all st_init))
      (pairs_ee event_all)
   \<and> maxPtDiLep (SelectDilepEE ROOT event_all st_init) = 70
   \<and> list_all (\<lambda>p. valid_mumu ROOT event_all p \<longrightarrow>
        maxPtDiLep st_init < sumPt_mumu ROOT event_all p) (pairs_mumu event_all)
   \<and> list_all (\<lambda>p. valid_mumu ROOT event_all p \<longrightarrow>
        sumPt_mumu ROOT event_all p \<le> maxPtDiLep (SelectDilepMuMu ROOT event_all st_init))
      (pairs_mumu event_all)
   \<and> maxPtDiLep (SelectDilepMuMu ROOT event_all st_init) = 60"
proof -
  have below:
    "\<forall>p\<in>set (pairs_emu event_all). valid_emu ROOT event_all p \<longrightarrow>
        maxPtDiLep st_init < sumPt_emu ROOT event_all p"
    "\<forall>p\<in>set (pairs_ee event_all). valid_ee ROOT event_all p \<longrightarrow>
        maxPtDiLep st_init < sumPt_ee ROOT event_all p"
    "\<forall>p\<in>set (pairs_mumu event_all). valid_mumu ROOT event_all p \<longrightarrow>
        maxPtDiLep st_init < sumPt_mumu ROOT event_all p"
    by (simp_all add: pairs_event_all valid_event_all sums_event_all st_init_def)
  note c = selected_sum_is_maximal [of event_all ROOT st_init]
  from c below have above:
    "\<forall>p\<in>set (pairs_emu event_all). valid_emu ROOT event_all p \<longrightarrow>
        sumPt_emu ROOT event_all p \<le> maxPtDiLep (SelectDilepEMu ROOT event_all st_init)"
    "\<forall>p\<in>set (pairs_ee event_all). valid_ee ROOT event_all p \<longrightarrow>
        sumPt_ee ROOT event_all p \<le> maxPtDiLep (SelectDilepEE ROOT event_all st_init)"
    "\<forall>p\<in>set (pairs_mumu event_all). valid_mumu ROOT event_all p \<longrightarrow>
        sumPt_mumu ROOT event_all p \<le> maxPtDiLep (SelectDilepMuMu ROOT event_all st_init)"
    by blast+
  have "maxPtDiLep (SelectDilepEMu ROOT event_all st_init) = 75"
    "maxPtDiLep (SelectDilepEE ROOT event_all st_init) = 70"
    "maxPtDiLep (SelectDilepMuMu ROOT event_all st_init) = 60"
    by (simp_all add: run_event_all_init sums_event_all)
  with below above show ?thesis by (simp add: list_all_iff)
qed

text \<open>
  C3. For each selector, when no pair of the event is valid, the three outputs on exit
  are equal to their values on entry.
\<close>

theorem no_valid_pair_no_update:
  "((\<forall>p\<in>set (pairs_emu t). \<not> valid_emu tlv t p) \<longrightarrow> SelectDilepEMu tlv t st = st)
   \<and> ((\<forall>p\<in>set (pairs_ee t). \<not> valid_ee tlv t p) \<longrightarrow> SelectDilepEE tlv t st = st)
   \<and> ((\<forall>p\<in>set (pairs_mumu t). \<not> valid_mumu tlv t p) \<longrightarrow> SelectDilepMuMu tlv t st = st)"
  unfolding selectors_scan by (intro conjI impI scan_none)

theorem no_valid_pair_no_update_witness:
  "filter (valid_emu ROOT event_misshit) (pairs_emu event_misshit) = []
   \<and> SelectDilepEMu ROOT event_misshit st_init = st_init
   \<and> filter (valid_ee ROOT event_zwindow) (pairs_ee event_zwindow) = []
   \<and> SelectDilepEE ROOT event_zwindow st_init = st_init
   \<and> filter (valid_mumu ROOT event_zwindow) (pairs_mumu event_zwindow) = []
   \<and> SelectDilepMuMu ROOT event_zwindow st_init = st_init"
proof -
  have none: "\<forall>p\<in>set (pairs_emu event_misshit). \<not> valid_emu ROOT event_misshit p"
    "\<forall>p\<in>set (pairs_ee event_zwindow). \<not> valid_ee ROOT event_zwindow p"
    "\<forall>p\<in>set (pairs_mumu event_zwindow). \<not> valid_mumu ROOT event_zwindow p"
    by (simp_all add: pairs_event_misshit valid_event_misshit pairs_event_zwindow
        valid_event_zwindow)
  from no_valid_pair_no_update [of event_misshit ROOT st_init] none(1)
  have "SelectDilepEMu ROOT event_misshit st_init = st_init" by blast
  moreover from no_valid_pair_no_update [of event_zwindow ROOT st_init] none(2,3)
  have "SelectDilepEE ROOT event_zwindow st_init = st_init"
    "SelectDilepMuMu ROOT event_zwindow st_init = st_init" by blast+
  ultimately show ?thesis using none by (simp add: filter_empty_conv)
qed

text \<open>
  C4. When a same-flavour selector changes its outputs, they are the output of a pair
  whose invariant mass is not strictly between 76 and 106, and its loop body leaves the
  state unchanged on a pair whose mass is in that window. The mixed-flavour selector
  has no such veto: on \<open>event_zwindow\<close> it selects a pair whose mass is in the window.
\<close>

theorem same_flavour_Z_veto:
  "(SelectDilepEE tlv t st \<noteq> st \<longrightarrow>
      (\<exists>p\<in>set (pairs_ee t). SelectDilepEE tlv t st = out_ee tlv t p
          \<and> \<not> (76 < mass_ee tlv t p \<and> mass_ee tlv t p < 106)))
   \<and> (SelectDilepMuMu tlv t st \<noteq> st \<longrightarrow>
      (\<exists>p\<in>set (pairs_mumu t). SelectDilepMuMu tlv t st = out_mumu tlv t p
          \<and> \<not> (76 < mass_mumu tlv t p \<and> mass_mumu tlv t p < 106)))
   \<and> (76 < mass_ee tlv t (i, j) \<and> mass_ee tlv t (i, j) < 106 \<longrightarrow>
        SelectDilepEE_el2 tlv t i (elVec tlv t i) j st = st)
   \<and> (76 < mass_mumu tlv t (i, j) \<and> mass_mumu tlv t (i, j) < 106 \<longrightarrow>
        SelectDilepMuMu_mu2 tlv t i (muVec tlv t i) j st = st)
   \<and> (SelectDilepEMu ROOT event_zwindow st_init = out_emu ROOT event_zwindow (0, 0)
        \<and> SelectDilepEMu ROOT event_zwindow st_init \<noteq> st_init
        \<and> 76 < mass_emu ROOT event_zwindow (0, 0) \<and> mass_emu ROOT event_zwindow (0, 0) < 106)"
proof (intro conjI impI)
  assume "SelectDilepEE tlv t st \<noteq> st"
  from selected_ee [OF this]
  show "\<exists>p\<in>set (pairs_ee t). SelectDilepEE tlv t st = out_ee tlv t p
          \<and> \<not> (76 < mass_ee tlv t p \<and> mass_ee tlv t p < 106)"
    by (auto simp add: valid_ee_def)
next
  assume "SelectDilepMuMu tlv t st \<noteq> st"
  from selected_mumu [OF this]
  show "\<exists>p\<in>set (pairs_mumu t). SelectDilepMuMu tlv t st = out_mumu tlv t p
          \<and> \<not> (76 < mass_mumu tlv t p \<and> mass_mumu tlv t p < 106)"
    by (auto simp add: valid_mumu_def)
next
  assume "76 < mass_ee tlv t (i, j) \<and> mass_ee tlv t (i, j) < 106"
  then show "SelectDilepEE_el2 tlv t i (elVec tlv t i) j st = st" by (rule inner_skip_window)
next
  assume "76 < mass_mumu tlv t (i, j) \<and> mass_mumu tlv t (i, j) < 106"
  then show "SelectDilepMuMu_mu2 tlv t i (muVec tlv t i) j st = st" by (rule inner_skip_window)
qed (simp_all add: run_event_zwindow mass_event_zwindow)

theorem same_flavour_Z_veto_witness:
  "SelectDilepEE ROOT event_all st_init \<noteq> st_init
   \<and> SelectDilepEE ROOT event_all st_init = out_ee ROOT event_all (0, 1)
   \<and> \<not> (76 < mass_ee ROOT event_all (0, 1) \<and> mass_ee ROOT event_all (0, 1) < 106)
   \<and> SelectDilepMuMu ROOT event_all st_init \<noteq> st_init
   \<and> SelectDilepMuMu ROOT event_all st_init = out_mumu ROOT event_all (0, 1)
   \<and> \<not> (76 < mass_mumu ROOT event_all (0, 1) \<and> mass_mumu ROOT event_all (0, 1) < 106)
   \<and> 76 < mass_ee ROOT event_zwindow (0, 1) \<and> mass_ee ROOT event_zwindow (0, 1) < 106
   \<and> SelectDilepEE_el2 ROOT event_zwindow 0 (elVec ROOT event_zwindow 0) 1 st_init = st_init
   \<and> 76 < mass_mumu ROOT event_zwindow (0, 1) \<and> mass_mumu ROOT event_zwindow (0, 1) < 106
   \<and> SelectDilepMuMu_mu2 ROOT event_zwindow 0 (muVec ROOT event_zwindow 0) 1 st_init = st_init"
proof -
  from same_flavour_Z_veto [of ROOT event_all st_init] upd_event_all
  have "\<exists>p\<in>set (pairs_ee event_all). SelectDilepEE ROOT event_all st_init = out_ee ROOT event_all p
          \<and> \<not> (76 < mass_ee ROOT event_all p \<and> mass_ee ROOT event_all p < 106)"
    and "\<exists>p\<in>set (pairs_mumu event_all).
          SelectDilepMuMu ROOT event_all st_init = out_mumu ROOT event_all p
          \<and> \<not> (76 < mass_mumu ROOT event_all p \<and> mass_mumu ROOT event_all p < 106)"
    by blast+
  then have sel: "SelectDilepEE ROOT event_all st_init = out_ee ROOT event_all (0, Suc 0)"
    "\<not> (76 < mass_ee ROOT event_all (0, Suc 0) \<and> mass_ee ROOT event_all (0, Suc 0) < 106)"
    "SelectDilepMuMu ROOT event_all st_init = out_mumu ROOT event_all (0, Suc 0)"
    "\<not> (76 < mass_mumu ROOT event_all (0, Suc 0) \<and> mass_mumu ROOT event_all (0, Suc 0) < 106)"
    by (simp_all add: pairs_event_all)
  from same_flavour_Z_veto [of ROOT event_zwindow st_init 0 "Suc 0"] mass_event_zwindow
  have skip: "SelectDilepEE_el2 ROOT event_zwindow 0 (elVec ROOT event_zwindow 0) (Suc 0) st_init
                = st_init"
    "SelectDilepMuMu_mu2 ROOT event_zwindow 0 (muVec ROOT event_zwindow 0) (Suc 0) st_init
       = st_init"
    by blast+
  from sel skip upd_event_all mass_event_zwindow show ?thesis by simp
qed

text \<open>
  C5. When a selector changes its outputs, they are the output of a pair whose invariant
  mass is at least 12; and the loop body leaves the state unchanged on a pair whose mass
  is below 12, whatever the running best is.
\<close>

theorem mass_floor:
  "(SelectDilepEMu tlv t st \<noteq> st \<longrightarrow>
      (\<exists>p\<in>set (pairs_emu t). SelectDilepEMu tlv t st = out_emu tlv t p \<and> 12 \<le> mass_emu tlv t p))
   \<and> (SelectDilepEE tlv t st \<noteq> st \<longrightarrow>
      (\<exists>p\<in>set (pairs_ee t). SelectDilepEE tlv t st = out_ee tlv t p \<and> 12 \<le> mass_ee tlv t p))
   \<and> (SelectDilepMuMu tlv t st \<noteq> st \<longrightarrow>
      (\<exists>p\<in>set (pairs_mumu t). SelectDilepMuMu tlv t st = out_mumu tlv t p
          \<and> 12 \<le> mass_mumu tlv t p))
   \<and> (mass_emu tlv t (el, mu) < 12 \<longrightarrow>
        SelectDilepEMu_mu tlv t el (elVec tlv t el) mu st = st)
   \<and> (mass_ee tlv t (el, mu) < 12 \<longrightarrow>
        SelectDilepEE_el2 tlv t el (elVec tlv t el) mu st = st)
   \<and> (mass_mumu tlv t (el, mu) < 12 \<longrightarrow>
        SelectDilepMuMu_mu2 tlv t el (muVec tlv t el) mu st = st)"
proof (intro conjI impI)
  assume "SelectDilepEMu tlv t st \<noteq> st"
  from selected_emu [OF this]
  show "\<exists>p\<in>set (pairs_emu t). SelectDilepEMu tlv t st = out_emu tlv t p \<and> 12 \<le> mass_emu tlv t p"
    by (auto simp add: valid_emu_def)
next
  assume "SelectDilepEE tlv t st \<noteq> st"
  from selected_ee [OF this]
  show "\<exists>p\<in>set (pairs_ee t). SelectDilepEE tlv t st = out_ee tlv t p \<and> 12 \<le> mass_ee tlv t p"
    by (auto simp add: valid_ee_def)
next
  assume "SelectDilepMuMu tlv t st \<noteq> st"
  from selected_mumu [OF this]
  show "\<exists>p\<in>set (pairs_mumu t). SelectDilepMuMu tlv t st = out_mumu tlv t p
          \<and> 12 \<le> mass_mumu tlv t p"
    by (auto simp add: valid_mumu_def)
qed (simp_all add: inner_skip_mass)

theorem mass_floor_witness:
  "SelectDilepEMu ROOT event_all st_init \<noteq> st_init
   \<and> SelectDilepEMu ROOT event_all st_init = out_emu ROOT event_all (1, 1)
   \<and> 12 \<le> mass_emu ROOT event_all (1, 1)
   \<and> SelectDilepEE ROOT event_all st_init \<noteq> st_init
   \<and> SelectDilepEE ROOT event_all st_init = out_ee ROOT event_all (0, 1)
   \<and> 12 \<le> mass_ee ROOT event_all (0, 1)
   \<and> SelectDilepMuMu ROOT event_all st_init \<noteq> st_init
   \<and> SelectDilepMuMu ROOT event_all st_init = out_mumu ROOT event_all (0, 1)
   \<and> 12 \<le> mass_mumu ROOT event_all (0, 1)
   \<and> mass_emu ROOT event_collinear (0, 0) < 12
   \<and> SelectDilepEMu_mu ROOT event_collinear 0 (elVec ROOT event_collinear 0) 0 st_init = st_init
   \<and> mass_ee ROOT event_collinear (0, 1) < 12
   \<and> SelectDilepEE_el2 ROOT event_collinear 0 (elVec ROOT event_collinear 0) 1 st_init = st_init
   \<and> mass_mumu ROOT event_collinear (0, 1) < 12
   \<and> SelectDilepMuMu_mu2 ROOT event_collinear 0 (muVec ROOT event_collinear 0) 1 st_init
       = st_init"
proof -
  note c = mass_floor [of ROOT event_all st_init]
  from c upd_event_all have
    "\<exists>p\<in>set (pairs_ee event_all). SelectDilepEE ROOT event_all st_init = out_ee ROOT event_all p
        \<and> 12 \<le> mass_ee ROOT event_all p"
    and "\<exists>p\<in>set (pairs_mumu event_all).
        SelectDilepMuMu ROOT event_all st_init = out_mumu ROOT event_all p
        \<and> 12 \<le> mass_mumu ROOT event_all p"
    by blast+
  then have sel: "SelectDilepEE ROOT event_all st_init = out_ee ROOT event_all (0, Suc 0)"
    "12 \<le> mass_ee ROOT event_all (0, Suc 0)"
    "SelectDilepMuMu ROOT event_all st_init = out_mumu ROOT event_all (0, Suc 0)"
    "12 \<le> mass_mumu ROOT event_all (0, Suc 0)"
    by (simp_all add: pairs_event_all)
  from mass_floor [of ROOT event_collinear st_init 0 0] mass_event_collinear(1)
  have low1: "SelectDilepEMu_mu ROOT event_collinear 0 (elVec ROOT event_collinear 0) 0 st_init
                = st_init"
    by blast
  from mass_floor [of ROOT event_collinear st_init 0 "Suc 0"] mass_event_collinear(2,3)
  have low2: "SelectDilepEE_el2 ROOT event_collinear 0 (elVec ROOT event_collinear 0) (Suc 0)
                st_init = st_init"
    "SelectDilepMuMu_mu2 ROOT event_collinear 0 (muVec ROOT event_collinear 0) (Suc 0) st_init
       = st_init"
    by blast+
  from sel low1 low2 upd_event_all show ?thesis
    by (simp add: run_event_all_init mass_event_all mass_event_collinear)
qed

text \<open>
  C6. When a selector changes its outputs, they are the output of a pair whose product of
  signed transverse momenta is not positive, so that the two are neither both positive
  nor both negative; and the loop body leaves the state unchanged on a pair whose product
  is positive.
\<close>

theorem opposite_charge:
  "(SelectDilepEMu tlv t st \<noteq> st \<longrightarrow>
      (\<exists>p\<in>set (pairs_emu t). SelectDilepEMu tlv t st = out_emu tlv t p
          \<and> elPt t ! fst p * muPt t ! snd p \<le> 0
          \<and> \<not> (0 < elPt t ! fst p \<and> 0 < muPt t ! snd p)
          \<and> \<not> (elPt t ! fst p < 0 \<and> muPt t ! snd p < 0)))
   \<and> (SelectDilepEE tlv t st \<noteq> st \<longrightarrow>
      (\<exists>p\<in>set (pairs_ee t). SelectDilepEE tlv t st = out_ee tlv t p
          \<and> elPt t ! fst p * elPt t ! snd p \<le> 0
          \<and> \<not> (0 < elPt t ! fst p \<and> 0 < elPt t ! snd p)
          \<and> \<not> (elPt t ! fst p < 0 \<and> elPt t ! snd p < 0)))
   \<and> (SelectDilepMuMu tlv t st \<noteq> st \<longrightarrow>
      (\<exists>p\<in>set (pairs_mumu t). SelectDilepMuMu tlv t st = out_mumu tlv t p
          \<and> muPt t ! fst p * muPt t ! snd p \<le> 0
          \<and> \<not> (0 < muPt t ! fst p \<and> 0 < muPt t ! snd p)
          \<and> \<not> (muPt t ! fst p < 0 \<and> muPt t ! snd p < 0)))
   \<and> (elPt t ! i * muPt t ! j > 0 \<longrightarrow> SelectDilepEMu_mu tlv t i v j st = st)
   \<and> (elPt t ! i * elPt t ! j > 0 \<longrightarrow> SelectDilepEE_el2 tlv t i v j st = st)
   \<and> (muPt t ! i * muPt t ! j > 0 \<longrightarrow> SelectDilepMuMu_mu2 tlv t i v j st = st)"
proof (intro conjI impI)
  assume "SelectDilepEMu tlv t st \<noteq> st"
  from selected_emu [OF this] obtain p where p: "p \<in> set (pairs_emu t)" "valid_emu tlv t p"
    "SelectDilepEMu tlv t st = out_emu tlv t p" by blast
  from p(2) valid_charges(1) [OF p(2)]
  have "elPt t ! fst p * muPt t ! snd p \<le> 0 \<and> \<not> (0 < elPt t ! fst p \<and> 0 < muPt t ! snd p)
          \<and> \<not> (elPt t ! fst p < 0 \<and> muPt t ! snd p < 0)"
    by (auto simp add: valid_emu_def)
  with p show "\<exists>p\<in>set (pairs_emu t). SelectDilepEMu tlv t st = out_emu tlv t p
          \<and> elPt t ! fst p * muPt t ! snd p \<le> 0
          \<and> \<not> (0 < elPt t ! fst p \<and> 0 < muPt t ! snd p)
          \<and> \<not> (elPt t ! fst p < 0 \<and> muPt t ! snd p < 0)" by blast
next
  assume "SelectDilepEE tlv t st \<noteq> st"
  from selected_ee [OF this] obtain p where p: "p \<in> set (pairs_ee t)" "valid_ee tlv t p"
    "SelectDilepEE tlv t st = out_ee tlv t p" by blast
  from p(2) valid_charges(2) [OF p(2)]
  have "elPt t ! fst p * elPt t ! snd p \<le> 0 \<and> \<not> (0 < elPt t ! fst p \<and> 0 < elPt t ! snd p)
          \<and> \<not> (elPt t ! fst p < 0 \<and> elPt t ! snd p < 0)"
    by (auto simp add: valid_ee_def)
  with p show "\<exists>p\<in>set (pairs_ee t). SelectDilepEE tlv t st = out_ee tlv t p
          \<and> elPt t ! fst p * elPt t ! snd p \<le> 0
          \<and> \<not> (0 < elPt t ! fst p \<and> 0 < elPt t ! snd p)
          \<and> \<not> (elPt t ! fst p < 0 \<and> elPt t ! snd p < 0)" by blast
next
  assume "SelectDilepMuMu tlv t st \<noteq> st"
  from selected_mumu [OF this] obtain p where p: "p \<in> set (pairs_mumu t)" "valid_mumu tlv t p"
    "SelectDilepMuMu tlv t st = out_mumu tlv t p" by blast
  from p(2) valid_charges(3) [OF p(2)]
  have "muPt t ! fst p * muPt t ! snd p \<le> 0 \<and> \<not> (0 < muPt t ! fst p \<and> 0 < muPt t ! snd p)
          \<and> \<not> (muPt t ! fst p < 0 \<and> muPt t ! snd p < 0)"
    by (auto simp add: valid_mumu_def)
  with p show "\<exists>p\<in>set (pairs_mumu t). SelectDilepMuMu tlv t st = out_mumu tlv t p
          \<and> muPt t ! fst p * muPt t ! snd p \<le> 0
          \<and> \<not> (0 < muPt t ! fst p \<and> 0 < muPt t ! snd p)
          \<and> \<not> (muPt t ! fst p < 0 \<and> muPt t ! snd p < 0)" by blast
qed (simp_all add: inner_skip_charge)

theorem opposite_charge_witness:
  "SelectDilepEMu ROOT event_all st_init \<noteq> st_init
   \<and> SelectDilepEMu ROOT event_all st_init = out_emu ROOT event_all (1, 1)
   \<and> elPt event_all ! 1 * muPt event_all ! 1 \<le> 0
   \<and> SelectDilepEE ROOT event_all st_init \<noteq> st_init
   \<and> SelectDilepEE ROOT event_all st_init = out_ee ROOT event_all (0, 1)
   \<and> elPt event_all ! 0 * elPt event_all ! 1 \<le> 0
   \<and> SelectDilepMuMu ROOT event_all st_init \<noteq> st_init
   \<and> SelectDilepMuMu ROOT event_all st_init = out_mumu ROOT event_all (0, 1)
   \<and> muPt event_all ! 0 * muPt event_all ! 1 \<le> 0
   \<and> 0 < elPt event_all ! 0 * muPt event_all ! 1
   \<and> SelectDilepEMu_mu ROOT event_all 0 (elVec ROOT event_all 0) 1 st_init = st_init
   \<and> 0 < elPt event_same_sign ! 0 * elPt event_same_sign ! 1
   \<and> SelectDilepEE_el2 ROOT event_same_sign 0 (elVec ROOT event_same_sign 0) 1 st_init = st_init
   \<and> 0 < muPt event_same_sign ! 0 * muPt event_same_sign ! 1
   \<and> SelectDilepMuMu_mu2 ROOT event_same_sign 0 (muVec ROOT event_same_sign 0) 1 st_init
       = st_init"
proof -
  have same: "0 < elPt event_all ! 0 * muPt event_all ! Suc 0" by (simp add: event_all_def)
  note c = opposite_charge [of ROOT event_all st_init 0 "Suc 0" "elVec ROOT event_all 0"]
  from c same have skip:
    "SelectDilepEMu_mu ROOT event_all 0 (elVec ROOT event_all 0) (Suc 0) st_init = st_init"
    by blast
  from c upd_event_all have
    "\<exists>p\<in>set (pairs_ee event_all). SelectDilepEE ROOT event_all st_init = out_ee ROOT event_all p
        \<and> elPt event_all ! fst p * elPt event_all ! snd p \<le> 0
        \<and> \<not> (0 < elPt event_all ! fst p \<and> 0 < elPt event_all ! snd p)
        \<and> \<not> (elPt event_all ! fst p < 0 \<and> elPt event_all ! snd p < 0)"
    and "\<exists>p\<in>set (pairs_mumu event_all).
        SelectDilepMuMu ROOT event_all st_init = out_mumu ROOT event_all p
        \<and> muPt event_all ! fst p * muPt event_all ! snd p \<le> 0
        \<and> \<not> (0 < muPt event_all ! fst p \<and> 0 < muPt event_all ! snd p)
        \<and> \<not> (muPt event_all ! fst p < 0 \<and> muPt event_all ! snd p < 0)"
    by blast+
  then have sel: "SelectDilepEE ROOT event_all st_init = out_ee ROOT event_all (0, Suc 0)"
    "elPt event_all ! 0 * elPt event_all ! Suc 0 \<le> 0"
    "SelectDilepMuMu ROOT event_all st_init = out_mumu ROOT event_all (0, Suc 0)"
    "muPt event_all ! 0 * muPt event_all ! Suc 0 \<le> 0"
    by (simp_all add: pairs_event_all)
  from opposite_charge [of ROOT event_same_sign st_init 0 "Suc 0" "elVec ROOT event_same_sign 0"]
    products_event_same_sign(1)
  have skip_ee: "SelectDilepEE_el2 ROOT event_same_sign 0 (elVec ROOT event_same_sign 0) (Suc 0)
       st_init = st_init"
    by blast
  from opposite_charge [of ROOT event_same_sign st_init 0 "Suc 0" "muVec ROOT event_same_sign 0"]
    products_event_same_sign(2)
  have skip_mumu: "SelectDilepMuMu_mu2 ROOT event_same_sign 0 (muVec ROOT event_same_sign 0)
       (Suc 0) st_init = st_init"
    by blast
  have emu: "SelectDilepEMu ROOT event_all st_init = out_emu ROOT event_all (Suc 0, Suc 0)"
    "elPt event_all ! Suc 0 * muPt event_all ! Suc 0 \<le> 0"
    by (simp_all add: run_event_all_init) (simp add: event_all_def)
  from sel skip skip_ee skip_mumu emu same products_event_same_sign upd_event_all
  show ?thesis by simp
qed

text \<open>
  C7. When a selector changes its outputs, \<^verbatim>\<open>vecLepM\<close> is the four-vector of the
  member of the selected pair whose stored transverse momentum is negative and
  \<^verbatim>\<open>vecLepP\<close> the four-vector of the other member, whose stored transverse momentum is
  positive.
\<close>

theorem minus_slot_holds_negative_lepton:
  "(SelectDilepEMu tlv t st \<noteq> st \<longrightarrow>
      (\<exists>p\<in>set (pairs_emu t).
          (elPt t ! fst p < 0 \<and> 0 < muPt t ! snd p
            \<and> vecLepM (SelectDilepEMu tlv t st) = elVec tlv t (fst p)
            \<and> vecLepP (SelectDilepEMu tlv t st) = muVec tlv t (snd p))
          \<or> (muPt t ! snd p < 0 \<and> 0 < elPt t ! fst p
            \<and> vecLepM (SelectDilepEMu tlv t st) = muVec tlv t (snd p)
            \<and> vecLepP (SelectDilepEMu tlv t st) = elVec tlv t (fst p))))
   \<and> (SelectDilepEE tlv t st \<noteq> st \<longrightarrow>
      (\<exists>p\<in>set (pairs_ee t).
          (elPt t ! fst p < 0 \<and> 0 < elPt t ! snd p
            \<and> vecLepM (SelectDilepEE tlv t st) = elVec tlv t (fst p)
            \<and> vecLepP (SelectDilepEE tlv t st) = elVec tlv t (snd p))
          \<or> (elPt t ! snd p < 0 \<and> 0 < elPt t ! fst p
            \<and> vecLepM (SelectDilepEE tlv t st) = elVec tlv t (snd p)
            \<and> vecLepP (SelectDilepEE tlv t st) = elVec tlv t (fst p))))
   \<and> (SelectDilepMuMu tlv t st \<noteq> st \<longrightarrow>
      (\<exists>p\<in>set (pairs_mumu t).
          (muPt t ! fst p < 0 \<and> 0 < muPt t ! snd p
            \<and> vecLepM (SelectDilepMuMu tlv t st) = muVec tlv t (fst p)
            \<and> vecLepP (SelectDilepMuMu tlv t st) = muVec tlv t (snd p))
          \<or> (muPt t ! snd p < 0 \<and> 0 < muPt t ! fst p
            \<and> vecLepM (SelectDilepMuMu tlv t st) = muVec tlv t (snd p)
            \<and> vecLepP (SelectDilepMuMu tlv t st) = muVec tlv t (fst p))))"
proof (intro conjI impI)
  assume "SelectDilepEMu tlv t st \<noteq> st"
  from selected_emu [OF this] obtain p where p: "p \<in> set (pairs_emu t)" "valid_emu tlv t p"
    "SelectDilepEMu tlv t st = out_emu tlv t p" by blast
  from valid_charges(1) [OF p(2)] p(1)
  show "\<exists>p\<in>set (pairs_emu t).
          (elPt t ! fst p < 0 \<and> 0 < muPt t ! snd p
            \<and> vecLepM (SelectDilepEMu tlv t st) = elVec tlv t (fst p)
            \<and> vecLepP (SelectDilepEMu tlv t st) = muVec tlv t (snd p))
          \<or> (muPt t ! snd p < 0 \<and> 0 < elPt t ! fst p
            \<and> vecLepM (SelectDilepEMu tlv t st) = muVec tlv t (snd p)
            \<and> vecLepP (SelectDilepEMu tlv t st) = elVec tlv t (fst p))"
    unfolding p(3) by (intro bexI [of _ p]) (auto simp add: out_emu_def)
next
  assume "SelectDilepEE tlv t st \<noteq> st"
  from selected_ee [OF this] obtain p where p: "p \<in> set (pairs_ee t)" "valid_ee tlv t p"
    "SelectDilepEE tlv t st = out_ee tlv t p" by blast
  from valid_charges(2) [OF p(2)] p(1)
  show "\<exists>p\<in>set (pairs_ee t).
          (elPt t ! fst p < 0 \<and> 0 < elPt t ! snd p
            \<and> vecLepM (SelectDilepEE tlv t st) = elVec tlv t (fst p)
            \<and> vecLepP (SelectDilepEE tlv t st) = elVec tlv t (snd p))
          \<or> (elPt t ! snd p < 0 \<and> 0 < elPt t ! fst p
            \<and> vecLepM (SelectDilepEE tlv t st) = elVec tlv t (snd p)
            \<and> vecLepP (SelectDilepEE tlv t st) = elVec tlv t (fst p))"
    unfolding p(3) by (intro bexI [of _ p]) (auto simp add: out_ee_def)
next
  assume "SelectDilepMuMu tlv t st \<noteq> st"
  from selected_mumu [OF this] obtain p where p: "p \<in> set (pairs_mumu t)" "valid_mumu tlv t p"
    "SelectDilepMuMu tlv t st = out_mumu tlv t p" by blast
  from valid_charges(3) [OF p(2)] p(1)
  show "\<exists>p\<in>set (pairs_mumu t).
          (muPt t ! fst p < 0 \<and> 0 < muPt t ! snd p
            \<and> vecLepM (SelectDilepMuMu tlv t st) = muVec tlv t (fst p)
            \<and> vecLepP (SelectDilepMuMu tlv t st) = muVec tlv t (snd p))
          \<or> (muPt t ! snd p < 0 \<and> 0 < muPt t ! fst p
            \<and> vecLepM (SelectDilepMuMu tlv t st) = muVec tlv t (snd p)
            \<and> vecLepP (SelectDilepMuMu tlv t st) = muVec tlv t (fst p))"
    unfolding p(3) by (intro bexI [of _ p]) (auto simp add: out_mumu_def)
qed

theorem minus_slot_holds_negative_lepton_witness:
  "SelectDilepEMu ROOT event_all st_init \<noteq> st_init
   \<and> muPt event_all ! 1 < 0 \<and> 0 < elPt event_all ! 1
   \<and> vecLepM (SelectDilepEMu ROOT event_all st_init) = muVec ROOT event_all 1
   \<and> vecLepP (SelectDilepEMu ROOT event_all st_init) = elVec ROOT event_all 1
   \<and> SelectDilepEE ROOT event_all st_init \<noteq> st_init
   \<and> elPt event_all ! 0 < 0 \<and> 0 < elPt event_all ! 1
   \<and> vecLepM (SelectDilepEE ROOT event_all st_init) = elVec ROOT event_all 0
   \<and> vecLepP (SelectDilepEE ROOT event_all st_init) = elVec ROOT event_all 1
   \<and> SelectDilepMuMu ROOT event_all st_init \<noteq> st_init
   \<and> muPt event_all ! 1 < 0 \<and> 0 < muPt event_all ! 0
   \<and> vecLepM (SelectDilepMuMu ROOT event_all st_init) = muVec ROOT event_all 1
   \<and> vecLepP (SelectDilepMuMu ROOT event_all st_init) = muVec ROOT event_all 0"
proof -
  have signs: "\<not> elPt event_all ! 0 < 0 \<longleftrightarrow> False" "elPt event_all ! Suc 0 < 0 \<longleftrightarrow> False"
    "0 < muPt event_all ! 0" "muPt event_all ! Suc 0 < 0"
    by (simp_all add: event_all_def)
  note c = minus_slot_holds_negative_lepton [of ROOT event_all st_init]
  from c upd_event_all(2) have ee: "\<exists>p\<in>set (pairs_ee event_all).
          (elPt event_all ! fst p < 0 \<and> 0 < elPt event_all ! snd p
            \<and> vecLepM (SelectDilepEE ROOT event_all st_init) = elVec ROOT event_all (fst p)
            \<and> vecLepP (SelectDilepEE ROOT event_all st_init) = elVec ROOT event_all (snd p))
          \<or> (elPt event_all ! snd p < 0 \<and> 0 < elPt event_all ! fst p
            \<and> vecLepM (SelectDilepEE ROOT event_all st_init) = elVec ROOT event_all (snd p)
            \<and> vecLepP (SelectDilepEE ROOT event_all st_init) = elVec ROOT event_all (fst p))"
    by blast
  from c upd_event_all(3) have mumu: "\<exists>p\<in>set (pairs_mumu event_all).
          (muPt event_all ! fst p < 0 \<and> 0 < muPt event_all ! snd p
            \<and> vecLepM (SelectDilepMuMu ROOT event_all st_init) = muVec ROOT event_all (fst p)
            \<and> vecLepP (SelectDilepMuMu ROOT event_all st_init) = muVec ROOT event_all (snd p))
          \<or> (muPt event_all ! snd p < 0 \<and> 0 < muPt event_all ! fst p
            \<and> vecLepM (SelectDilepMuMu ROOT event_all st_init) = muVec ROOT event_all (snd p)
            \<and> vecLepP (SelectDilepMuMu ROOT event_all st_init) = muVec ROOT event_all (fst p))"
    by blast
  have emu: "vecLepM (SelectDilepEMu ROOT event_all st_init) = muVec ROOT event_all (Suc 0)"
    "vecLepP (SelectDilepEMu ROOT event_all st_init) = elVec ROOT event_all (Suc 0)"
    "0 < elPt event_all ! Suc 0"
    by (simp_all add: run_event_all_init out_emu_def) (simp_all add: event_all_def)
  from ee mumu emu upd_event_all show ?thesis
    by (simp add: pairs_event_all signs) (simp add: event_all_def)
qed

text \<open>
  C8. The missing-hit count is a number of hits, so it is not negative. For such a
  candidate \<^verbatim>\<open>SelectEl\<close> returns true if and only if \<open>|pt| \<ge> 20\<close>,
  \<open>|eta| \<le> 2.4\<close>, isolation \<open>\<le> 0.17\<close> and missing-hit count equal to 0; an
  electron with every value exactly at its threshold passes. The source writes the last
  test as the rejection of a count greater than 0, which is the last conjunct below.
\<close>

theorem SelectEl_iff_cuts:
  "(0 \<le> elMissHits t ! el \<longrightarrow>
        (SelectEl t el \<longleftrightarrow>
           20 \<le> \<bar>elPt t ! el\<bar> \<and> \<bar>elEta t ! el\<bar> \<le> 2.4 \<and> elIso03 t ! el \<le> 0.17
           \<and> elMissHits t ! el = 0))
   \<and> SelectEl el_at_thresholds 0
   \<and> (SelectEl t el \<longleftrightarrow>
      20 \<le> \<bar>elPt t ! el\<bar> \<and> \<bar>elEta t ! el\<bar> \<le> 2.4 \<and> elIso03 t ! el \<le> 0.17
      \<and> \<not> elMissHits t ! el > 0)"
proof (intro conjI impI)
  show "SelectEl t el \<longleftrightarrow>
      20 \<le> \<bar>elPt t ! el\<bar> \<and> \<bar>elEta t ! el\<bar> \<le> 2.4 \<and> elIso03 t ! el \<le> 0.17
      \<and> \<not> elMissHits t ! el > 0"
    unfolding SelectEl_def by (simp add: not_less not_le)
  show "SelectEl el_at_thresholds 0"
    by (simp add: SelectEl_def el_at_thresholds_def)
next
  assume "0 \<le> elMissHits t ! el"
  then show "SelectEl t el \<longleftrightarrow>
           20 \<le> \<bar>elPt t ! el\<bar> \<and> \<bar>elEta t ! el\<bar> \<le> 2.4 \<and> elIso03 t ! el \<le> 0.17
           \<and> elMissHits t ! el = 0"
    unfolding SelectEl_def by (auto simp add: not_less not_le)
qed

theorem SelectEl_iff_cuts_witness:
  "0 \<le> elMissHits el_at_thresholds ! 0
   \<and> SelectEl el_at_thresholds 0
   \<and> \<bar>elPt el_at_thresholds ! 0\<bar> = 20 \<and> \<bar>elEta el_at_thresholds ! 0\<bar> = 2.4
   \<and> elIso03 el_at_thresholds ! 0 = 0.17 \<and> elMissHits el_at_thresholds ! 0 = 0
   \<and> 0 \<le> elMissHits event_misshit ! 0
   \<and> elMissHits event_misshit ! 0 = 1
   \<and> \<not> SelectEl event_misshit 0"
proof -
  have h: "0 \<le> elMissHits el_at_thresholds ! 0" by (simp add: el_at_thresholds_def)
  from SelectEl_iff_cuts [of el_at_thresholds 0] h
  have pass: "SelectEl el_at_thresholds 0 \<longleftrightarrow>
           20 \<le> \<bar>elPt el_at_thresholds ! 0\<bar> \<and> \<bar>elEta el_at_thresholds ! 0\<bar> \<le> 2.4
           \<and> elIso03 el_at_thresholds ! 0 \<le> 0.17 \<and> elMissHits el_at_thresholds ! 0 = 0"
    by blast
  have h': "0 \<le> elMissHits event_misshit ! 0" by (simp add: event_misshit_def)
  from SelectEl_iff_cuts [of event_misshit 0] h'
  have "SelectEl event_misshit 0 \<longleftrightarrow>
           20 \<le> \<bar>elPt event_misshit ! 0\<bar> \<and> \<bar>elEta event_misshit ! 0\<bar> \<le> 2.4
           \<and> elIso03 event_misshit ! 0 \<le> 0.17 \<and> elMissHits event_misshit ! 0 = 0"
    by blast
  then have fail: "\<not> SelectEl event_misshit 0" by (simp add: event_misshit_def)
  from pass have "SelectEl el_at_thresholds 0" by (simp add: el_at_thresholds_def)
  with fail show ?thesis by (simp add: el_at_thresholds_def event_misshit_def)
qed

text \<open>
  C9. \<^verbatim>\<open>SelectMu\<close> returns true if and only if the candidate has
  \<open>|pt| \<ge> 20\<close>, \<open>|eta| \<le> 2.4\<close>, isolation \<open>\<le> 0.20\<close>, at least 12 valid tracker
  hits, at least 2 valid pixel hits, transverse impact parameter \<open>\<le> 0.02\<close>,
  longitudinal impact parameter \<open>\<le> 0.5\<close> and track chi-square per degree of freedom
  \<open>\<le> 10\<close>; a muon with every value exactly at its threshold passes.
\<close>

theorem SelectMu_iff_cuts:
  "(SelectMu t mu \<longleftrightarrow>
      20 \<le> \<bar>muPt t ! mu\<bar> \<and> \<bar>muEta t ! mu\<bar> \<le> 2.4 \<and> muIso03 t ! mu \<le> 0.20
      \<and> 12 \<le> muHitsValid t ! mu \<and> 2 \<le> muHitsPixel t ! mu
      \<and> muDistPV0 t ! mu \<le> 0.02 \<and> muDistPVz t ! mu \<le> 0.5
      \<and> muTrackChi2NDOF t ! mu \<le> 10)
   \<and> SelectMu mu_at_thresholds 0"
proof
  show "SelectMu t mu \<longleftrightarrow>
      20 \<le> \<bar>muPt t ! mu\<bar> \<and> \<bar>muEta t ! mu\<bar> \<le> 2.4 \<and> muIso03 t ! mu \<le> 0.20
      \<and> 12 \<le> muHitsValid t ! mu \<and> 2 \<le> muHitsPixel t ! mu
      \<and> muDistPV0 t ! mu \<le> 0.02 \<and> muDistPVz t ! mu \<le> 0.5
      \<and> muTrackChi2NDOF t ! mu \<le> 10"
    unfolding SelectMu_def by (simp add: not_less not_le)
  show "SelectMu mu_at_thresholds 0"
    by (simp add: SelectMu_def mu_at_thresholds_def)
qed

text \<open>
  C10. No selector decreases the accumulator: its value on exit is at least its value on
  entry. Chained on one accumulator, in the order e-mu, e-e, mu-mu or in the reverse order,
  the three selectors leave the maximum of the value on entry and of the sums of all the
  valid pairs of the three kinds.
\<close>

theorem best_sum_never_decreases:
  "maxPtDiLep st \<le> maxPtDiLep (SelectDilepEMu tlv t st)
   \<and> maxPtDiLep st \<le> maxPtDiLep (SelectDilepEE tlv t st)
   \<and> maxPtDiLep st \<le> maxPtDiLep (SelectDilepMuMu tlv t st)
   \<and> maxPtDiLep (SelectDilepMuMu tlv t (SelectDilepEE tlv t (SelectDilepEMu tlv t st)))
       = Max (set (maxPtDiLep st
                   # map (sumPt_emu tlv t) (filter (valid_emu tlv t) (pairs_emu t))
                   @ map (sumPt_ee tlv t) (filter (valid_ee tlv t) (pairs_ee t))
                   @ map (sumPt_mumu tlv t) (filter (valid_mumu tlv t) (pairs_mumu t))))
   \<and> maxPtDiLep (SelectDilepEMu tlv t (SelectDilepEE tlv t (SelectDilepMuMu tlv t st)))
       = Max (set (maxPtDiLep st
                   # map (sumPt_emu tlv t) (filter (valid_emu tlv t) (pairs_emu t))
                   @ map (sumPt_ee tlv t) (filter (valid_ee tlv t) (pairs_ee t))
                   @ map (sumPt_mumu tlv t) (filter (valid_mumu tlv t) (pairs_mumu t))))"
proof -
  let ?E = "set (map (sumPt_emu tlv t) (filter (valid_emu tlv t) (pairs_emu t)))"
  let ?F = "set (map (sumPt_ee tlv t) (filter (valid_ee tlv t) (pairs_ee t)))"
  let ?G = "set (map (sumPt_mumu tlv t) (filter (valid_mumu tlv t) (pairs_mumu t)))"
  have fin: "finite ?E" "finite ?F" "finite ?G" by simp_all
  have emu: "\<And>s. maxPtDiLep (SelectDilepEMu tlv t s) = Max (insert (maxPtDiLep s) ?E)"
    unfolding selectors_scan by (simp add: scan_max [of "out_emu tlv t" "sumPt_emu tlv t"])
  have ee: "\<And>s. maxPtDiLep (SelectDilepEE tlv t s) = Max (insert (maxPtDiLep s) ?F)"
    unfolding selectors_scan by (simp add: scan_max [of "out_ee tlv t" "sumPt_ee tlv t"])
  have mumu: "\<And>s. maxPtDiLep (SelectDilepMuMu tlv t s) = Max (insert (maxPtDiLep s) ?G)"
    unfolding selectors_scan by (simp add: scan_max [of "out_mumu tlv t" "sumPt_mumu tlv t"])
  have mono: "maxPtDiLep st \<le> maxPtDiLep (SelectDilepEMu tlv t st)"
    "maxPtDiLep st \<le> maxPtDiLep (SelectDilepEE tlv t st)"
    "maxPtDiLep st \<le> maxPtDiLep (SelectDilepMuMu tlv t st)"
    unfolding emu ee mumu using fin by simp_all
  have "Max (insert (Max (insert (Max (insert (maxPtDiLep st) ?E)) ?F)) ?G)
          = Max (insert (maxPtDiLep st) (?E \<union> ?F \<union> ?G))"
    using fin by (simp only: Max_chain finite_UnI Un_assoc)
  then have chain1:
    "maxPtDiLep (SelectDilepMuMu tlv t (SelectDilepEE tlv t (SelectDilepEMu tlv t st)))
       = Max (insert (maxPtDiLep st) (?E \<union> ?F \<union> ?G))"
    by (simp only: emu ee mumu)
  have "Max (insert (Max (insert (Max (insert (maxPtDiLep st) ?G)) ?F)) ?E)
          = Max (insert (maxPtDiLep st) (?G \<union> ?F \<union> ?E))"
    using fin by (simp only: Max_chain finite_UnI Un_assoc)
  then have chain2:
    "maxPtDiLep (SelectDilepEMu tlv t (SelectDilepEE tlv t (SelectDilepMuMu tlv t st)))
       = Max (insert (maxPtDiLep st) (?E \<union> ?F \<union> ?G))"
    by (simp only: emu ee mumu Un_commute Un_left_commute Un_assoc)
  from mono chain1 chain2 show ?thesis by (simp add: Un_assoc)
qed

theorem best_sum_never_decreases_witness:
  "maxPtDiLep st_init \<le> maxPtDiLep (SelectDilepEMu ROOT event_all st_init)
   \<and> maxPtDiLep (SelectDilepEMu ROOT event_all st_init) = 75
   \<and> maxPtDiLep (SelectDilepMuMu ROOT event_all
         (SelectDilepEE ROOT event_all (SelectDilepEMu ROOT event_all st_init))) = 75
   \<and> Max (set (maxPtDiLep st_init
                # map (sumPt_emu ROOT event_all) (filter (valid_emu ROOT event_all) (pairs_emu event_all))
                @ map (sumPt_ee ROOT event_all) (filter (valid_ee ROOT event_all) (pairs_ee event_all))
                @ map (sumPt_mumu ROOT event_all)
                    (filter (valid_mumu ROOT event_all) (pairs_mumu event_all)))) = 75"
proof -
  note c = best_sum_never_decreases [of st_init ROOT event_all]
  have "maxPtDiLep (SelectDilepMuMu ROOT event_all
         (SelectDilepEE ROOT event_all (SelectDilepEMu ROOT event_all st_init))) = 75"
    by (simp add: run_event_all sums_event_all max_st_init)
  with c show ?thesis by (simp add: run_event_all_init sums_event_all max_st_init)
qed

end
